theory Spec2Isabelle
  imports Main "HOL-Library.Word" "HOL-Library.Signed_Division"
begin

unbundle bit_operations_syntax

section \<open>eonasm: a shallow embedding of eonasm.c\<close>

text \<open>
  Machine types of the source: \<open>uint8_t\<close>, \<open>uint16_t\<close>, \<open>uint32_t\<close>/\<open>unsigned\<close> are
  words of that width; \<open>int\<close> is a 32-bit word read in two's complement (\<open>sint\<close>,
  \<open><s\<close>).  A \<open>uint8_t *\<close> into the line buffer is the list of the bytes from the
  pointer to the terminating NUL; the buffer behind the terminator is taken to be zero,
  so reading at or behind the terminator gives 0 and stepping there stays there.
\<close>

type_synonym u8 = "8 word"
type_synonym u16 = "16 word"
type_synonym u32 = "32 word"

definition ascii :: "string \<Rightarrow> u8 list" where
  "ascii s = map of_char s"

subsection \<open>config\<close>

definition MAX_LINE :: nat where "MAX_LINE = 128"
definition MAX_ERRORS :: u32 where "MAX_ERRORS = 8"
definition MAX_LABELS :: nat where "MAX_LABELS = 256"
definition MAX_CHAR_LABEL :: nat where "MAX_CHAR_LABEL = 22"
definition OUTPUT_LINE_BYTES :: nat where "OUTPUT_LINE_BYTES = 32"

subsection \<open>ctype support\<close>

definition isdigit :: "u8 \<Rightarrow> bool" where
  "isdigit c = ((ucast c :: u32) - 48 < 10)"

definition isalpha :: "u8 \<Rightarrow> bool" where
  "isalpha c = (((ucast c :: u32) OR 32) - 97 < 26)"

definition isalnum :: "u8 \<Rightarrow> bool" where
  "isalnum c = (isalpha c \<or> isdigit c)"

definition islower :: "u8 \<Rightarrow> bool" where
  "islower c = ((ucast c :: u32) - 97 < 26)"

definition toupper :: "u8 \<Rightarrow> u8" where
  "toupper c = (if islower c then c AND 0x5f else c)"

text \<open>\<open>*p\<close>, \<open>p[n]\<close> and \<open>p + n\<close> on a pointer into the line buffer.\<close>

definition peek :: "u8 list \<Rightarrow> u8" where
  "peek p = (case p of [] \<Rightarrow> 0 | c # _ \<Rightarrow> c)"

definition peek_at :: "u8 list \<Rightarrow> nat \<Rightarrow> u8" where
  "peek_at p n = peek (drop n p)"

text \<open>\<open>while (*p && *p <= ' ') p++;\<close>\<close>

fun skip_blanks :: "u8 list \<Rightarrow> u8 list" where
  "skip_blanks [] = []"
| "skip_blanks (c # p) = (if c \<noteq> 0 \<and> c \<le> 32 then skip_blanks p else c # p)"

subsection \<open>format engine\<close>

definition hdigit :: "u8 list" where
  "hdigit = ascii ''0123456789ABCDEF''"

text \<open>The conversions \<open>%b\<close> (hex byte, 2 digits) and \<open>%w\<close> (hex word, 4 digits) of \<open>fmt\<close>.\<close>

definition fmt_b :: "u32 \<Rightarrow> u8 list" where
  "fmt_b n = [hdigit ! unat (drop_bit 4 n AND 0x0f), hdigit ! unat (n AND 0x0f)]"

definition fmt_w :: "u32 \<Rightarrow> u8 list" where
  "fmt_w n = [hdigit ! unat (drop_bit 12 n AND 0x0f), hdigit ! unat (drop_bit 8 n AND 0x0f),
              hdigit ! unat (drop_bit 4 n AND 0x0f), hdigit ! unat (n AND 0x0f)]"

subsection \<open>labels and global state\<close>

record label_t =
  "value" :: u32
  lbegin :: nat
  lend :: nat
  flags :: u8
  len :: nat
  name :: "u8 list"

definition LABEL_USED :: u8 where "LABEL_USED = 0x01"
definition LABEL_EQU :: u8 where "LABEL_EQU = 0x02"

text \<open>
  The process-wide variables of the source.  \<open>diags\<close> is what \<open>error\<close> wrote to standard
  error (line number and message), \<open>ofile\<close> the bytes written to the output file.
  The record buffer \<open>line[OUTPUT_LINE_BYTES]\<close> with its fill count \<open>pending\<close> is the list
  \<open>line\<close> of the pending bytes, \<open>pending\<close> being its length.  \<open>tlabel\<close> is the label
  table, a \<open>label_t\<close> pointer is an index into it.
\<close>

record state =
  errcount :: u32
  diags :: "(nat \<times> string) list"
  ofile :: "u8 list"
  line :: "u8 list"
  basepc :: u32
  outpc :: u32
  nlabel :: nat
  lstack :: nat
  tlabel :: "nat \<Rightarrow> label_t"

definition pending :: "state \<Rightarrow> nat" where
  "pending st = length (line st)"

text \<open>
  What a call does: it returns a value in a new state, or the process exits (status 1)
  in the state reached, or the C program has no defined behaviour there.
\<close>

datatype 'a outcome = Ret 'a state | Exit state | Undefined

definition error :: "nat \<Rightarrow> string \<Rightarrow> state \<Rightarrow> unit outcome" where
  "error lineno msg st =
     (let st1 = st\<lparr>diags := diags st @ [(lineno, msg)], errcount := errcount st + 1\<rparr>
      in if errcount st1 \<ge> MAX_ERRORS then Exit st1 else Ret () st1)"

subsection \<open>output image\<close>

text \<open>The checksum loop of \<open>emit_flush\<close>: \<open>crc += line[i]\<close> for each pending byte.\<close>

fun crc_loop :: "u8 \<Rightarrow> u8 list \<Rightarrow> u8" where
  "crc_loop crc [] = crc"
| "crc_loop crc (byte # rest) = crc_loop (crc + byte) rest"

definition emit_flush :: "state \<Rightarrow> state" where
  "emit_flush st =
     (if pending st \<noteq> 0 then
        let crc0 = (ucast ((of_nat (pending st) :: u32) + drop_bit 8 (basepc st) + basepc st) :: u8);
            crc = crc_loop crc0 (line st)
        in st\<lparr>ofile := ofile st @ ascii '':'' @ fmt_b (of_nat (pending st)) @ fmt_w (basepc st)
                          @ ascii ''00'' @ concat (map (\<lambda>byte. fmt_b (ucast byte)) (line st))
                          @ fmt_b ((0 - ucast crc) AND 0x0ff) @ [10],
               line := []\<rparr>
      else st)"

definition emit :: "u16 \<Rightarrow> u8 \<Rightarrow> state \<Rightarrow> state" where
  "emit at byte st =
     (let st1 = (if pending st \<ge> OUTPUT_LINE_BYTES \<or> ucast at \<noteq> outpc st
                 then (emit_flush st)\<lparr>basepc := ucast at, outpc := ucast at\<rparr> else st)
      in st1\<lparr>line := line st1 @ [byte], outpc := outpc st1 + 1\<rparr>)"

definition emit_done :: "state \<Rightarrow> state" where
  "emit_done st = (let st1 = emit_flush st in st1\<lparr>ofile := ofile st1 @ ascii '':00000001FF'' @ [10]\<rparr>)"

text \<open>The bytes a data record of the HEX file stands for, \<open>cc\<close> being its checksum byte:
  byte count, address high and low, record type 0, the data.\<close>

definition record_bytes :: "state \<Rightarrow> u8 \<Rightarrow> u8 list" where
  "record_bytes st cc =
     [of_nat (pending st), ucast (drop_bit 8 (basepc st)), ucast (basepc st), 0] @ line st @ [cc]"

text \<open>The static storage of the process when \<open>main\<close> starts.\<close>

definition init_state :: state where
  "init_state = \<lparr>errcount = 0, diags = [], ofile = [], line = [], basepc = 0, outpc = 0,
          nlabel = 0, lstack = MAX_LABELS,
          tlabel = (\<lambda>_. \<lparr>value = 0, lbegin = 0, lend = 0, flags = 0, len = 0, name = []\<rparr>)\<rparr>"

text \<open>Sequencing two calls: the second runs only when the first has returned.\<close>

definition and_then :: "'a outcome \<Rightarrow> ('a \<Rightarrow> state \<Rightarrow> 'b outcome) \<Rightarrow> 'b outcome" where
  "and_then r f = (case r of Ret x st \<Rightarrow> f x st | Exit st \<Rightarrow> Exit st | Undefined \<Rightarrow> Undefined)"

text \<open>
  The same for calls that contain one of the loops below, whose result is \<open>None\<close> when
  the loop does not come to an end.
\<close>

definition then_do :: "'a outcome option \<Rightarrow> ('a \<Rightarrow> state \<Rightarrow> 'b outcome option) \<Rightarrow> 'b outcome option" where
  "then_do m f =
     Option.bind m (\<lambda>r. case r of Ret x st \<Rightarrow> f x st | Exit st \<Rightarrow> Some (Exit st) | Undefined \<Rightarrow> Some Undefined)"

lemma then_do_mono [partial_function_mono]:
  assumes mf: "mono_option B" and mg: "\<And>x st. mono_option (\<lambda>f. C x st f)"
  shows "mono_option (\<lambda>f. then_do (B f) (\<lambda>x st. C x st f))"
  unfolding then_do_def
  apply (rule bind_mono [OF mf])
  subgoal for y by (cases y) (simp_all add: mg option.const_mono)
  done

abbreviation (input) CH :: "char \<Rightarrow> u8" where
  "CH c \<equiv> of_char c"

subsection \<open>labels\<close>

text \<open>The search loop of \<open>find_label\<close> over the slots \<open>i..<end\<close>.\<close>

function find_loop :: "state \<Rightarrow> u8 list \<Rightarrow> nat \<Rightarrow> nat \<Rightarrow> nat \<Rightarrow> nat option" where
  "find_loop st id' n i end' =
     (if i < end' then
        (let l = tlabel st i
         in if n = len l \<and> take n id' = take n (name l) then Some i
            else find_loop st id' n (Suc i) end')
      else None)"
  by pat_completeness auto
termination
  by (relation "measure (\<lambda>(st, id', n, i, end'). end' - i)") auto

text \<open>\<open>find_label (master, id, len)\<close>; \<open>id\<close> is the list of the \<open>len\<close> bytes passed.\<close>

definition find_label :: "state \<Rightarrow> nat option \<Rightarrow> u8 list \<Rightarrow> nat option" where
  "find_label st master id' =
     (let n = (if length id' > MAX_CHAR_LABEL then MAX_CHAR_LABEL else length id')
      in case master of
           None \<Rightarrow> find_loop st id' n 0 (nlabel st)
         | Some m \<Rightarrow> find_loop st id' n (lbegin (tlabel st m)) (lend (tlabel st m)))"

text \<open>
  \<open>add_label (master, id, len, at)\<close>.  The \<open>memcpy\<close> copies all \<open>len\<close> bytes into
  \<open>name[MAX_CHAR_LABEL]\<close>: with a longer name it writes behind the array, which is
  undefined.  \<open>flags\<close> is not written: the slot keeps what it held.
\<close>

definition add_label :: "nat option \<Rightarrow> u8 list \<Rightarrow> u32 \<Rightarrow> state \<Rightarrow> nat outcome" where
  "add_label master id' at st =
     (if nlabel st \<ge> lstack st then Exit st
      else
        let (l, st1) =
              (case master of
                 Some m \<Rightarrow>
                   (let ls = lstack st - 1
                    in (ls, st\<lparr>lstack := ls,
                                tlabel := (tlabel st)(m := (tlabel st m)\<lparr>lbegin := ls\<rparr>)\<rparr>))
               | None \<Rightarrow>
                   (let n = nlabel st
                    in (n, st\<lparr>nlabel := n + 1,
                               tlabel := (tlabel st)(n := (tlabel st n)\<lparr>lbegin := lstack st, lend := lstack st\<rparr>)\<rparr>)))
        in if length id' > MAX_CHAR_LABEL then Undefined
           else Ret l (st1\<lparr>tlabel := (tlabel st1)(l := (tlabel st1 l)\<lparr>value := at, len := length id', name := id'\<rparr>)\<rparr>))"

subsection \<open>expr parser\<close>

text \<open>The digit of the hex-number loop: \<open>-1\<close> when \<open>c\<close> is no hex digit.\<close>

definition hex_digit :: "u8 \<Rightarrow> u32" where
  "hex_digit c =
     (if c \<ge> CH CHR ''0'' \<and> c \<le> CH CHR ''9'' then ucast c - 48
      else if c \<ge> CH CHR ''a'' \<and> c \<le> CH CHR ''f'' then ucast c - 97 + 10
      else if c \<ge> CH CHR ''A'' \<and> c \<le> CH CHR ''F'' then ucast c - 65 + 10
      else - 1)"

fun hex_number :: "u32 \<Rightarrow> u8 list \<Rightarrow> u32 \<times> u8 list" where
  "hex_number v [] = (v, [])"
| "hex_number v (c # p) =
     (if hex_digit c <s 0 then (v, c # p) else hex_number (push_bit 4 v OR hex_digit c) p)"

text \<open>\<open>while (isdigit (*p)) v = v * 10 + *p++ - '0';\<close>\<close>

fun dec_number :: "u32 \<Rightarrow> u8 list \<Rightarrow> u32 \<times> u8 list" where
  "dec_number v [] = (v, [])"
| "dec_number v (c # p) =
     (if isdigit c then dec_number (v * 10 + ucast c - 48) p else (v, c # p))"

text \<open>The copy loops \<open>for (; ok (*p); p++) *n++ = toupper (*p);\<close>: the name and the rest.\<close>

fun scan_upper :: "(u8 \<Rightarrow> bool) \<Rightarrow> u8 list \<Rightarrow> u8 list \<times> u8 list" where
  "scan_upper ok [] = ([], [])"
| "scan_upper ok (c # p) =
     (if ok c then (let (n, q) = scan_upper ok p in (toupper c # n, q)) else ([], c # p))"

definition is_name_char :: "u8 \<Rightarrow> bool" where
  "is_name_char c = (c = CH CHR ''_'' \<or> isalnum c)"

text \<open>The label branch of \<open>expr\<close>: value of the operand and the pointer behind it.\<close>

definition expr_label :: "nat \<Rightarrow> nat option \<Rightarrow> bool \<Rightarrow> u8 list \<Rightarrow> state \<Rightarrow> (u32 \<times> u8 list) outcome" where
  "expr_label lineno mainlbl allow_undef p st =
     (let p1 = (if peek p = CH CHR '':'' then tl p else p);
          local = (peek p1 = CH CHR ''.'');
          p2 = (if local then tl p1 else p1)
      in and_then (if local \<and> mainlbl = None
                   then error lineno ''local label in expr without main label'' st
                   else Ret () st)
           (\<lambda>_ st1.
              let (n, p3) = scan_upper is_name_char p2
              in case find_label st1 (if local then mainlbl else None) n of
                   None \<Rightarrow>
                     (if \<not> allow_undef
                      then and_then (error lineno ''undefined label in expr'' st1) (\<lambda>_. Ret (0, p3))
                      else Ret (0, p3) st1)
                 | Some l \<Rightarrow>
                     Ret (value (tlabel st1 l), p3)
                       (st1\<lparr>tlabel := (tlabel st1)(l := (tlabel st1 l)\<lparr>flags := flags (tlabel st1 l) OR LABEL_USED\<rparr>)\<rparr>)))"

text \<open>
  One element of the loop of \<open>expr\<close>: the loop is left (\<open>break\<close>) with the pointer
  reached, which is \<open>NULL\<close> after a failed sub-expression, or an element was read:
  its operator \<open>op\<close> (0 for an operand), its value \<open>v\<close> and the pointer behind it.
\<close>

datatype item = Brk "u8 list option" | Itm u32 u32 "u8 list"

definition is_operator :: "u8 \<Rightarrow> bool" where
  "is_operator c = (c = CH CHR ''+'' \<or> c = CH CHR ''-'' \<or> c = CH CHR ''&'' \<or> c = CH CHR ''|''
                    \<or> c = CH CHR ''*'' \<or> c = CH CHR ''%'' \<or> c = CH CHR ''/'')"

definition expr_item :: "nat \<Rightarrow> nat option \<Rightarrow> bool \<Rightarrow> u32 \<Rightarrow> u8 list \<Rightarrow> state \<Rightarrow> item outcome" where
  "expr_item lineno mainlbl allow_undef pc p st =
     (if peek p = CH CHR ''$'' then
        (if peek_at p 1 = CH CHR ''$'' then Ret (Itm 0 pc (drop 2 p)) st
         else (let (v, q) = hex_number 0 (tl p) in Ret (Itm 0 v q) st))
      else if isdigit (peek p) \<or> (peek p = CH CHR ''-'' \<and> isdigit (peek_at p 1)) then
        (let minus = (peek p = CH CHR ''-'');
             (v, q) = dec_number 0 (if minus then tl p else p)
         in Ret (Itm 0 (if minus then 0 - v else v) q) st)
      else if peek p = CH (CHR 0x27) \<and> peek_at p 2 = CH (CHR 0x27) then
        Ret (Itm 0 (ucast (peek_at p 1)) (drop 3 p)) st
      else if is_operator (peek p) then Ret (Itm (ucast (peek p)) 0 (tl p)) st
      else if peek p = CH CHR '':'' \<or> isalpha (peek p) \<or> peek p = CH CHR ''.'' then
        and_then (expr_label lineno mainlbl allow_undef p st) (\<lambda>(v, q). Ret (Itm 0 v q))
      else Ret (Brk (Some p)) st)"

text \<open>
  The two stacks \<open>sval[8]\<close>, \<open>sop[8]\<close> with their fill counts \<open>vsp\<close>, \<open>osp\<close> are lists, top
  first.  \<open>expr_push\<close> is the "process" step of the loop: \<open>None\<close> is its \<open>break\<close>.
\<close>

definition expr_max :: nat where "expr_max = 8"

definition expr_push :: "u32 \<Rightarrow> u32 \<Rightarrow> u32 list \<Rightarrow> u32 list \<Rightarrow> (u32 list \<times> u32 list) option" where
  "expr_push op v sval sop =
     (let vsp = length sval; osp = length sop
      in if op \<noteq> 0 then
           (if osp + 1 \<noteq> vsp \<or> osp \<ge> expr_max then None else Some (sval, op # sop))
         else
           (if vsp \<noteq> osp \<or> vsp \<ge> expr_max then None else Some (v # sval, sop)))"

text \<open>The \<open>switch\<close> of the reduction; dividing by zero is undefined in C.\<close>

definition binop :: "u32 \<Rightarrow> u32 \<Rightarrow> u32 \<Rightarrow> u32 option" where
  "binop op vl vr =
     (if op = ucast (CH CHR ''+'') then Some (vl + vr)
      else if op = ucast (CH CHR ''-'') then Some (vl - vr)
      else if op = ucast (CH CHR ''*'') then Some (vl * vr)
      else if op = ucast (CH CHR ''/'') then (if vr = 0 then None else Some (vl div vr))
      else if op = ucast (CH CHR ''%'') then (if vr = 0 then None else Some (vl mod vr))
      else if op = ucast (CH CHR ''&'') then Some (vl AND vr)
      else if op = ucast (CH CHR ''|'') then Some (vl OR vr)
      else Some 0)"

text \<open>
  \<open>while (osp > 0)\<close>: pop the top operator and the two top values, push the result.
  The loop runs only when \<open>osp + 1 = vsp\<close>, so the value stack cannot run empty there.
\<close>

fun reduce :: "u32 list \<Rightarrow> u32 list \<Rightarrow> u32 list option" where
  "reduce sval [] = Some sval"
| "reduce (vr # vl # sval) (op # sop) =
     (case binop op vl vr of None \<Rightarrow> None | Some vv \<Rightarrow> reduce (vv # sval) sop)"
| "reduce sval (op # sop) = None"

text \<open>
  The end of \<open>expr\<close>, behind the loop.  The result \<open>vp_t\<close> is \<open>None\<close> when its pointer is
  \<open>NULL\<close> (no caller reads the value then), else the pointer and the value \<open>sval[0]\<close>.
\<close>

definition expr_done :: "nat \<Rightarrow> u8 list option \<Rightarrow> u32 list \<Rightarrow> u32 list \<Rightarrow> state \<Rightarrow> (u8 list \<times> u32) option outcome" where
  "expr_done lineno p sval sop st =
     (if length sop + 1 \<noteq> length sval then
        and_then (error lineno ''expr syntax'' st) (\<lambda>_. Ret None)
      else
        (case reduce sval sop of
           None \<Rightarrow> Undefined
         | Some sval1 \<Rightarrow> Ret (case p of None \<Rightarrow> None | Some q \<Rightarrow> Some (q, last sval1)) st))"

text \<open>
  The loop of \<open>expr\<close> from the pointer \<open>p\<close> with the stacks \<open>sval\<close>, \<open>sop\<close>, up to the
  return.  A parenthesis calls \<open>expr\<close> itself, which is the loop with empty stacks.
\<close>

partial_function (option) expr_loop ::
  "nat \<Rightarrow> nat option \<Rightarrow> bool \<Rightarrow> u32 \<Rightarrow> u8 list \<Rightarrow> u32 list \<Rightarrow> u32 list \<Rightarrow> state
     \<Rightarrow> (u8 list \<times> u32) option outcome option" where
  "expr_loop lineno mainlbl allow_undef pc p0 sval sop st =
     (let p = skip_blanks p0 in
      then_do
        (if peek p = CH CHR ''('' then
           then_do (expr_loop lineno mainlbl allow_undef pc (tl p) [] [] st)
             (\<lambda>vp st1. Some (Ret (case vp of
                                      None \<Rightarrow> Brk None
                                    | Some (q, v) \<Rightarrow>
                                        if peek q \<noteq> CH CHR '')'' then Brk (Some (tl q))
                                        else Itm 0 v (tl q)) st1))
         else Some (expr_item lineno mainlbl allow_undef pc p st))
        (\<lambda>it st1. case it of
           Brk q \<Rightarrow> Some (expr_done lineno q sval sop st1)
         | Itm op v q \<Rightarrow>
             (case expr_push op v sval sop of
                None \<Rightarrow> Some (expr_done lineno (Some q) sval sop st1)
              | Some (sval1, sop1) \<Rightarrow> expr_loop lineno mainlbl allow_undef pc q sval1 sop1 st1)))"

definition expr :: "nat \<Rightarrow> nat option \<Rightarrow> bool \<Rightarrow> u32 \<Rightarrow> u8 list \<Rightarrow> state \<Rightarrow> (u8 list \<times> u32) option outcome option" where
  "expr lineno mainlbl allow_undef pc p st = expr_loop lineno mainlbl allow_undef pc p [] [] st"

text \<open>
  The "get element" part of one turn of the loop, from the pointer \<open>p0\<close>: an operand in
  parentheses is a call of \<open>expr\<close>.
\<close>

definition expr_next ::
  "nat \<Rightarrow> nat option \<Rightarrow> bool \<Rightarrow> u32 \<Rightarrow> u8 list \<Rightarrow> state \<Rightarrow> item outcome option" where
  "expr_next lineno mainlbl allow_undef pc p0 st =
     (let p = skip_blanks p0 in
      if peek p = CH CHR ''('' then
        then_do (expr lineno mainlbl allow_undef pc (tl p) st)
          (\<lambda>vp st1. Some (Ret (case vp of
                                   None \<Rightarrow> Brk None
                                 | Some (q, v) \<Rightarrow>
                                     if peek q \<noteq> CH CHR '')'' then Brk (Some (tl q))
                                     else Itm 0 v (tl q)) st1))
      else Some (expr_item lineno mainlbl allow_undef pc p st))"

text \<open>
  The first elements the loop reads from \<open>p\<close>: \<open>read_items\<close> is the pointer and the state
  behind them when they are the elements \<open>its\<close> (operator and value of each).
\<close>

fun read_items ::
  "nat \<Rightarrow> nat option \<Rightarrow> bool \<Rightarrow> u32 \<Rightarrow> u8 list \<Rightarrow> state \<Rightarrow> (u32 \<times> u32) list \<Rightarrow> (u8 list \<times> state) option" where
  "read_items lineno mainlbl allow_undef pc p st [] = Some (p, st)"
| "read_items lineno mainlbl allow_undef pc p st (it # its) =
     (case expr_next lineno mainlbl allow_undef pc p st of
        Some (Ret (Itm op v q) st1) \<Rightarrow>
          if (op, v) = it then read_items lineno mainlbl allow_undef pc q st1 its else None
      | _ \<Rightarrow> None)"

text \<open>The elements of \<open>v1 op1 v2 op2 ... vn\<close>: operands \<open>vs\<close> and operators \<open>ops\<close> in turn.\<close>

fun weave :: "u32 list \<Rightarrow> u32 list \<Rightarrow> (u32 \<times> u32) list" where
  "weave [] ops = []"
| "weave (v # vs) [] = [(0, v)]"
| "weave (v # vs) (op # ops) = (0, v) # (op, 0) # weave vs ops"

subsection \<open>registers\<close>

text \<open>\<open>strcmp\<close> on strings without NUL bytes: negative, zero or positive.\<close>

fun strcmp :: "u8 list \<Rightarrow> u8 list \<Rightarrow> int" where
  "strcmp [] [] = 0"
| "strcmp [] (d # t) = - 1"
| "strcmp (c # s) [] = 1"
| "strcmp (c # s) (d # t) = (if c = d then strcmp s t else if c < d then - 1 else 1)"

text \<open>The binary search of \<open>reg_find\<close> and \<open>op_find\<close> between the indices \<open>a\<close> and \<open>b\<close>.\<close>

function table_find :: "(u8 list \<times> 'a) list \<Rightarrow> u8 list \<Rightarrow> int \<Rightarrow> int \<Rightarrow> 'a option" where
  "table_find tab key a b =
     (if a \<le> b then
        (let m = (a + b) div 2; r = strcmp key (fst (tab ! nat m))
         in if r = 0 then Some (snd (tab ! nat m))
            else if r < 0 then table_find tab key a (m - 1)
            else table_find tab key (m + 1) b)
      else None)"
  by pat_completeness auto
termination
  by (relation "measure (\<lambda>(tab, key, a, b). nat (b - a + 1))") auto

definition vreg :: "(u8 list \<times> u32) list" where
  "vreg = [(ascii ''R0'', 0),
     (ascii ''R1'', 1),
     (ascii ''R10'', 10),
     (ascii ''R11'', 11),
     (ascii ''R12'', 12),
     (ascii ''R13'', 13),
     (ascii ''R14'', 14),
     (ascii ''R2'', 2),
     (ascii ''R3'', 3),
     (ascii ''R4'', 4),
     (ascii ''R5'', 5),
     (ascii ''R6'', 6),
     (ascii ''R7'', 7),
     (ascii ''R8'', 8),
     (ascii ''R9'', 9),
     (ascii ''SP'', 15)]"

definition reg_find :: "u8 list \<Rightarrow> u32" where
  "reg_find reg = (case table_find vreg reg 0 (int (length vreg) - 1) of None \<Rightarrow> - 1 | Some rno \<Rightarrow> rno)"

subsection \<open>opcodes\<close>

text \<open>The anonymous \<open>enum\<close> of the opcodes: consecutive numbers from 0.\<close>

type_synonym opcode = nat

definition OP_ADD :: opcode where "OP_ADD = 0"
definition OP_AND :: opcode where "OP_AND = 1"
definition OP_BEQ :: opcode where "OP_BEQ = 2"
definition OP_BLE :: opcode where "OP_BLE = 3"
definition OP_BLEI :: opcode where "OP_BLEI = 4"
definition OP_BLT :: opcode where "OP_BLT = 5"
definition OP_BLTI :: opcode where "OP_BLTI = 6"
definition OP_BNE :: opcode where "OP_BNE = 7"
definition OP_BNZ :: opcode where "OP_BNZ = 8"
definition OP_BRA :: opcode where "OP_BRA = 9"
definition OP_BSWAP :: opcode where "OP_BSWAP = 10"
definition OP_BZ :: opcode where "OP_BZ = 11"
definition OP_CSETN :: opcode where "OP_CSETN = 12"
definition OP_CSETNN :: opcode where "OP_CSETNN = 13"
definition OP_CSETNP :: opcode where "OP_CSETNP = 14"
definition OP_CSETNZ :: opcode where "OP_CSETNZ = 15"
definition OP_CSETP :: opcode where "OP_CSETP = 16"
definition OP_CSETZ :: opcode where "OP_CSETZ = 17"
definition OP_ENTER :: opcode where "OP_ENTER = 18"
definition OP_ERET :: opcode where "OP_ERET = 19"
definition OP_GET :: opcode where "OP_GET = 20"
definition OP_ILL :: opcode where "OP_ILL = 21"
definition OP_IN :: opcode where "OP_IN = 22"
definition OP_IRET :: opcode where "OP_IRET = 23"
definition OP_ISTAT :: opcode where "OP_ISTAT = 24"
definition OP_JAL :: opcode where "OP_JAL = 25"
definition OP_JMP :: opcode where "OP_JMP = 26"
definition OP_LD1 :: opcode where "OP_LD1 = 27"
definition OP_LD1I :: opcode where "OP_LD1I = 28"
definition OP_LD2 :: opcode where "OP_LD2 = 29"
definition OP_LD2I :: opcode where "OP_LD2I = 30"
definition OP_LD4 :: opcode where "OP_LD4 = 31"
definition OP_LD4I :: opcode where "OP_LD4I = 32"
definition OP_LD8 :: opcode where "OP_LD8 = 33"
definition OP_LEA :: opcode where "OP_LEA = 34"
definition OP_LI :: opcode where "OP_LI = 35"
definition OP_MV :: opcode where "OP_MV = 36"
definition OP_NOP :: opcode where "OP_NOP = 37"
definition OP_OR :: opcode where "OP_OR = 38"
definition OP_OUT :: opcode where "OP_OUT = 39"
definition OP_RET :: opcode where "OP_RET = 40"
definition OP_SET :: opcode where "OP_SET = 41"
definition OP_SEXT1 :: opcode where "OP_SEXT1 = 42"
definition OP_SEXT2 :: opcode where "OP_SEXT2 = 43"
definition OP_SEXT4 :: opcode where "OP_SEXT4 = 44"
definition OP_SHL :: opcode where "OP_SHL = 45"
definition OP_SHR :: opcode where "OP_SHR = 46"
definition OP_SHRI :: opcode where "OP_SHRI = 47"
definition OP_SIGNAL :: opcode where "OP_SIGNAL = 48"
definition OP_SRET :: opcode where "OP_SRET = 49"
definition OP_ST1 :: opcode where "OP_ST1 = 50"
definition OP_ST2 :: opcode where "OP_ST2 = 51"
definition OP_ST4 :: opcode where "OP_ST4 = 52"
definition OP_ST8 :: opcode where "OP_ST8 = 53"
definition OP_SUB :: opcode where "OP_SUB = 54"
definition OP_SYS :: opcode where "OP_SYS = 55"
definition OP_WAIT :: opcode where "OP_WAIT = 56"
definition OP_XOR :: opcode where "OP_XOR = 57"
definition OP_ZEXT1 :: opcode where "OP_ZEXT1 = 58"
definition OP_ZEXT2 :: opcode where "OP_ZEXT2 = 59"
definition OP_ZEXT4 :: opcode where "OP_ZEXT4 = 60"

lemmas opcode_defs =
  OP_ADD_def OP_AND_def OP_BEQ_def OP_BLE_def OP_BLEI_def OP_BLT_def
  OP_BLTI_def OP_BNE_def OP_BNZ_def OP_BRA_def OP_BSWAP_def OP_BZ_def
  OP_CSETN_def OP_CSETNN_def OP_CSETNP_def OP_CSETNZ_def OP_CSETP_def OP_CSETZ_def
  OP_ENTER_def OP_ERET_def OP_GET_def OP_ILL_def OP_IN_def OP_IRET_def
  OP_ISTAT_def OP_JAL_def OP_JMP_def OP_LD1_def OP_LD1I_def OP_LD2_def
  OP_LD2I_def OP_LD4_def OP_LD4I_def OP_LD8_def OP_LEA_def OP_LI_def
  OP_MV_def OP_NOP_def OP_OR_def OP_OUT_def OP_RET_def OP_SET_def
  OP_SEXT1_def OP_SEXT2_def OP_SEXT4_def OP_SHL_def OP_SHR_def OP_SHRI_def
  OP_SIGNAL_def OP_SRET_def OP_ST1_def OP_ST2_def OP_ST4_def OP_ST8_def
  OP_SUB_def OP_SYS_def OP_WAIT_def OP_XOR_def OP_ZEXT1_def OP_ZEXT2_def
  OP_ZEXT4_def

definition vop :: "(u8 list \<times> opcode) list" where
  "vop = [(ascii ''ADD'', OP_ADD),
     (ascii ''AND'', OP_AND),
     (ascii ''BEQ'', OP_BEQ),
     (ascii ''BLE'', OP_BLE),
     (ascii ''BLEI'', OP_BLEI),
     (ascii ''BLT'', OP_BLT),
     (ascii ''BLTI'', OP_BLTI),
     (ascii ''BNE'', OP_BNE),
     (ascii ''BNZ'', OP_BNZ),
     (ascii ''BRA'', OP_BRA),
     (ascii ''BSWAP'', OP_BSWAP),
     (ascii ''BZ'', OP_BZ),
     (ascii ''CSETN'', OP_CSETN),
     (ascii ''CSETNN'', OP_CSETNN),
     (ascii ''CSETNP'', OP_CSETNP),
     (ascii ''CSETNZ'', OP_CSETNZ),
     (ascii ''CSETP'', OP_CSETP),
     (ascii ''CSETZ'', OP_CSETZ),
     (ascii ''ENTER'', OP_ENTER),
     (ascii ''ERET'', OP_ERET),
     (ascii ''GET'', OP_GET),
     (ascii ''ILLEGAL'', OP_ILL),
     (ascii ''IN'', OP_IN),
     (ascii ''IRET'', OP_IRET),
     (ascii ''ISTAT'', OP_ISTAT),
     (ascii ''JAL'', OP_JAL),
     (ascii ''JMP'', OP_JMP),
     (ascii ''LD1'', OP_LD1),
     (ascii ''LD1I'', OP_LD1I),
     (ascii ''LD2'', OP_LD2),
     (ascii ''LD2I'', OP_LD2I),
     (ascii ''LD4'', OP_LD4),
     (ascii ''LD4I'', OP_LD4I),
     (ascii ''LD8'', OP_LD8),
     (ascii ''LEA'', OP_LEA),
     (ascii ''LI'', OP_LI),
     (ascii ''MV'', OP_MV),
     (ascii ''NOP'', OP_NOP),
     (ascii ''OR'', OP_OR),
     (ascii ''OUT'', OP_OUT),
     (ascii ''RET'', OP_RET),
     (ascii ''SET'', OP_SET),
     (ascii ''SEXT1'', OP_SEXT1),
     (ascii ''SEXT2'', OP_SEXT2),
     (ascii ''SEXT4'', OP_SEXT4),
     (ascii ''SHL'', OP_SHL),
     (ascii ''SHR'', OP_SHR),
     (ascii ''SHRI'', OP_SHRI),
     (ascii ''SIGNAL'', OP_SIGNAL),
     (ascii ''SRET'', OP_SRET),
     (ascii ''ST1'', OP_ST1),
     (ascii ''ST2'', OP_ST2),
     (ascii ''ST4'', OP_ST4),
     (ascii ''ST8'', OP_ST8),
     (ascii ''SUB'', OP_SUB),
     (ascii ''SYSCALL'', OP_SYS),
     (ascii ''WAIT'', OP_WAIT),
     (ascii ''XOR'', OP_XOR),
     (ascii ''ZEXT1'', OP_ZEXT1),
     (ascii ''ZEXT2'', OP_ZEXT2),
     (ascii ''ZEXT4'', OP_ZEXT4)]"

definition op_find :: "u8 list \<Rightarrow> opcode option" where
  "op_find op = table_find vop op 0 (int (length vop) - 1)"

subsection \<open>opcode match engine\<close>

text \<open>The kinds \<open>_\<close>, \<open>R\<close>, \<open>N\<close>, \<open>M\<close> of an argument; \<open>rno\<close> and \<open>val\<close> are C \<open>int\<close>s.\<close>

datatype arg_kind = NoArg | R | N | M

record arg_t =
  k :: arg_kind
  rno :: u32
  val :: u32

text \<open>A row of \<open>tmatch\<close>: \<open>op\<close>, \<open>na\<close>, \<open>args\<close>, \<open>kind\<close>, \<open>word\<close>.\<close>

type_synonym tentry_t = "opcode \<times> nat \<times> arg_kind list \<times> char \<times> u32"

definition tmatch :: "tentry_t list" where
  "tmatch = [(OP_ADD, 3, [R, R, R], CHR ''R'', 0x4000),
     (OP_ADD, 3, [R, R, N], CHR ''A'', 0x3004),
     (OP_ADD, 2, [R, N, NoArg], CHR ''a'', 0x3004),
     (OP_ADD, 2, [R, R, NoArg], CHR ''r'', 0x4000),
     (OP_AND, 3, [R, R, R], CHR ''R'', 0x8000),
     (OP_AND, 3, [R, R, N], CHR ''A'', 0x3008),
     (OP_AND, 2, [R, N, NoArg], CHR ''a'', 0x3008),
     (OP_AND, 2, [R, R, NoArg], CHR ''r'', 0x8000),
     (OP_BEQ, 3, [R, R, N], CHR ''b'', 0x2000),
     (OP_BLE, 3, [R, R, N], CHR ''b'', 0x2004),
     (OP_BLEI, 3, [R, R, N], CHR ''b'', 0x2005),
     (OP_BLT, 3, [R, R, N], CHR ''b'', 0x2002),
     (OP_BLTI, 3, [R, R, N], CHR ''b'', 0x2003),
     (OP_BNE, 3, [R, R, N], CHR ''b'', 0x2001),
     (OP_BNZ, 2, [R, N, NoArg], CHR ''!'', 0x20f1),
     (OP_BRA, 1, [N, NoArg, NoArg], CHR ''B'', 0x2ff0),
     (OP_BSWAP, 2, [R, R, NoArg], CHR ''U'', 0x0004),
     (OP_BSWAP, 1, [R, NoArg, NoArg], CHR ''u'', 0x0004),
     (OP_BZ, 2, [R, N, NoArg], CHR ''!'', 0x20f0),
     (OP_CSETN, 2, [R, R, NoArg], CHR ''U'', 0x000a),
     (OP_CSETN, 1, [R, NoArg, NoArg], CHR ''u'', 0x000a),
     (OP_CSETNN, 2, [R, R, NoArg], CHR ''U'', 0x000b),
     (OP_CSETNN, 1, [R, NoArg, NoArg], CHR ''u'', 0x000b),
     (OP_CSETNP, 2, [R, R, NoArg], CHR ''U'', 0x000d),
     (OP_CSETNP, 1, [R, NoArg, NoArg], CHR ''u'', 0x000d),
     (OP_CSETNZ, 2, [R, R, NoArg], CHR ''U'', 0x0009),
     (OP_CSETNZ, 1, [R, NoArg, NoArg], CHR ''u'', 0x0009),
     (OP_CSETP, 2, [R, R, NoArg], CHR ''U'', 0x000c),
     (OP_CSETP, 1, [R, NoArg, NoArg], CHR ''u'', 0x000c),
     (OP_CSETZ, 2, [R, R, NoArg], CHR ''U'', 0x0008),
     (OP_CSETZ, 1, [R, NoArg, NoArg], CHR ''u'', 0x0008),
     (OP_ENTER, 1, [N, NoArg, NoArg], CHR ''E'', 0x0ff8),
     (OP_ERET, 0, [NoArg, NoArg, NoArg], CHR ''N'', 0x0ff6),
     (OP_GET, 2, [R, N, NoArg], CHR ''G'', 0x0f08),
     (OP_ILL, 0, [NoArg, NoArg, NoArg], CHR ''N'', 0x0ff0),
     (OP_IN, 2, [R, R, NoArg], CHR ''U'', 0x000e),
     (OP_IRET, 0, [NoArg, NoArg, NoArg], CHR ''N'', 0x0ff4),
     (OP_ISTAT, 1, [R, NoArg, NoArg], CHR ''1'', 0x0f04),
     (OP_JAL, 1, [N, NoArg, NoArg], CHR ''J'', 0x0ffd),
     (OP_JAL, 1, [R, NoArg, NoArg], CHR ''1'', 0x0f01),
     (OP_JMP, 1, [N, NoArg, NoArg], CHR ''J'', 0x0ffc),
     (OP_JMP, 1, [R, NoArg, NoArg], CHR ''1'', 0x0f00),
     (OP_LD1, 2, [R, M, NoArg], CHR ''M'', 0x1000),
     (OP_LD1I, 2, [R, M, NoArg], CHR ''M'', 0x1001),
     (OP_LD2, 2, [R, M, NoArg], CHR ''M'', 0x1002),
     (OP_LD2I, 2, [R, M, NoArg], CHR ''M'', 0x1003),
     (OP_LD4, 2, [R, M, NoArg], CHR ''M'', 0x1004),
     (OP_LD4I, 2, [R, M, NoArg], CHR ''M'', 0x1005),
     (OP_LD8, 2, [R, M, NoArg], CHR ''M'', 0x1006),
     (OP_LEA, 2, [R, N, NoArg], CHR ''L'', 0x0f0d),
     (OP_LEA, 2, [R, M, NoArg], CHR ''l'', 0x0f0a),
     (OP_LI, 2, [R, N, NoArg], CHR ''I'', 0x0f0c),
     (OP_MV, 2, [R, R, NoArg], CHR ''='', 0x90f0),
     (OP_NOP, 0, [NoArg, NoArg, NoArg], CHR ''N'', 0x0ff1),
     (OP_OR, 3, [R, R, R], CHR ''R'', 0x9000),
     (OP_OR, 3, [R, R, N], CHR ''A'', 0x3009),
     (OP_OR, 2, [R, N, NoArg], CHR ''a'', 0x3009),
     (OP_OR, 2, [R, R, NoArg], CHR ''r'', 0x9000),
     (OP_OUT, 2, [R, R, NoArg], CHR ''U'', 0x000f),
     (OP_RET, 0, [NoArg, NoArg, NoArg], CHR ''N'', 0x0fe0),
     (OP_SET, 2, [N, R, NoArg], CHR ''g'', 0x0f09),
     (OP_SEXT1, 2, [R, R, NoArg], CHR ''U'', 0x0005),
     (OP_SEXT1, 1, [R, NoArg, NoArg], CHR ''u'', 0x0005),
     (OP_SEXT2, 2, [R, R, NoArg], CHR ''U'', 0x0006),
     (OP_SEXT2, 1, [R, NoArg, NoArg], CHR ''u'', 0x0006),
     (OP_SEXT4, 2, [R, R, NoArg], CHR ''U'', 0x0007),
     (OP_SEXT4, 1, [R, NoArg, NoArg], CHR ''u'', 0x0007),
     (OP_SHL, 3, [R, R, R], CHR ''R'', 0xb000),
     (OP_SHL, 3, [R, R, N], CHR ''A'', 0x300b),
     (OP_SHL, 2, [R, N, NoArg], CHR ''a'', 0x300b),
     (OP_SHL, 2, [R, R, NoArg], CHR ''r'', 0xb000),
     (OP_SHR, 3, [R, R, R], CHR ''R'', 0xc000),
     (OP_SHR, 3, [R, R, N], CHR ''A'', 0x300c),
     (OP_SHR, 2, [R, N, NoArg], CHR ''a'', 0x300c),
     (OP_SHR, 2, [R, R, NoArg], CHR ''r'', 0xc000),
     (OP_SHRI, 3, [R, R, R], CHR ''R'', 0xd000),
     (OP_SHRI, 3, [R, R, N], CHR ''A'', 0x300d),
     (OP_SHRI, 2, [R, N, NoArg], CHR ''a'', 0x300d),
     (OP_SHRI, 2, [R, R, NoArg], CHR ''r'', 0xd000),
     (OP_SIGNAL, 1, [N, NoArg, NoArg], CHR ''E'', 0x0ff9),
     (OP_SRET, 0, [NoArg, NoArg, NoArg], CHR ''N'', 0x0ff5),
     (OP_ST1, 2, [M, R, NoArg], CHR ''m'', 0x1008),
     (OP_ST2, 2, [M, R, NoArg], CHR ''m'', 0x1009),
     (OP_ST4, 2, [M, R, NoArg], CHR ''m'', 0x100a),
     (OP_ST8, 2, [M, R, NoArg], CHR ''m'', 0x100b),
     (OP_SUB, 3, [R, R, R], CHR ''R'', 0x5000),
     (OP_SUB, 3, [R, R, N], CHR ''A'', 0x3005),
     (OP_SUB, 2, [R, N, NoArg], CHR ''a'', 0x3005),
     (OP_SUB, 2, [R, R, NoArg], CHR ''r'', 0x5000),
     (OP_SYS, 0, [NoArg, NoArg, NoArg], CHR ''N'', 0x0ff2),
     (OP_WAIT, 0, [NoArg, NoArg, NoArg], CHR ''N'', 0x0ff3),
     (OP_XOR, 3, [R, R, R], CHR ''R'', 0xa000),
     (OP_XOR, 3, [R, R, N], CHR ''A'', 0x300a),
     (OP_XOR, 2, [R, N, NoArg], CHR ''a'', 0x300a),
     (OP_XOR, 2, [R, R, NoArg], CHR ''r'', 0xa000),
     (OP_ZEXT1, 2, [R, R, NoArg], CHR ''U'', 0x0001),
     (OP_ZEXT1, 1, [R, NoArg, NoArg], CHR ''u'', 0x0001),
     (OP_ZEXT2, 2, [R, R, NoArg], CHR ''U'', 0x0002),
     (OP_ZEXT2, 1, [R, NoArg, NoArg], CHR ''u'', 0x0002),
     (OP_ZEXT4, 2, [R, R, NoArg], CHR ''U'', 0x0003),
     (OP_ZEXT4, 1, [R, NoArg, NoArg], CHR ''u'', 0x0003)]"

text \<open>The inner loop of \<open>match\<close>: the kinds of the arguments \<open>n..<na\<close> are those of the row.\<close>

function args_fit :: "arg_kind list \<Rightarrow> (nat \<Rightarrow> arg_t) \<Rightarrow> nat \<Rightarrow> nat \<Rightarrow> bool" where
  "args_fit eargs va n na =
     (if n < na then (if k (va n) \<noteq> eargs ! n then False else args_fit eargs va (Suc n) na)
      else True)"
  by pat_completeness auto
termination
  by (relation "measure (\<lambda>(eargs, va, n, na). na - n)") auto

fun match_rows :: "tentry_t list \<Rightarrow> opcode \<Rightarrow> nat \<Rightarrow> (nat \<Rightarrow> arg_t) \<Rightarrow> tentry_t option" where
  "match_rows [] op na va = None"
| "match_rows (e # es) op na va =
     (case e of (eop, ena, eargs, ekind, eword) \<Rightarrow>
        if eop = op \<and> ena = na \<and> args_fit eargs va 0 na then Some e
        else match_rows es op na va)"

definition match :: "opcode \<Rightarrow> nat \<Rightarrow> (nat \<Rightarrow> arg_t) \<Rightarrow> tentry_t option" where
  "match op na va = match_rows tmatch op na va"

subsection \<open>the encoder\<close>

text \<open>
  The \<open>switch (k)\<close> of \<open>assemble\<close> with its \<open>goto again\<close>: the bytes the instruction
  puts into \<open>code\<close>.  A byte stored into \<open>code\<close> is cut to 8 bits (\<open>b8\<close>).  \<open>>>\<close> on an
  \<open>int\<close> is the arithmetic shift, \<open>/\<close> on \<open>int\<close>s rounds towards zero (\<open>sdiv32\<close>), and
  \<open>int\<close> arithmetic is taken to wrap around at 32 bits and \<open><<\<close> to shift the bits also
  of a negative register number (that of an unknown register), as the compiled code does.
\<close>

definition b8 :: "u32 \<Rightarrow> u8" where
  "b8 x = ucast x"

definition sdiv32 :: "u32 \<Rightarrow> u32 \<Rightarrow> u32" where
  "sdiv32 a b = word_of_int (sint a sdiv sint b)"

definition set_rno :: "(nat \<Rightarrow> arg_t) \<Rightarrow> nat \<Rightarrow> u32 \<Rightarrow> (nat \<Rightarrow> arg_t)" where
  "set_rno va i x = va(i := (va i)\<lparr>rno := x\<rparr>)"

definition set_val :: "(nat \<Rightarrow> arg_t) \<Rightarrow> nat \<Rightarrow> u32 \<Rightarrow> (nat \<Rightarrow> arg_t)" where
  "set_val va i x = va(i := (va i)\<lparr>val := x\<rparr>)"

text \<open>\<open>if (out && bad) error (lineno, msg);\<close> behind the bytes of an instruction.\<close>

definition checked :: "bool \<Rightarrow> nat \<Rightarrow> string \<Rightarrow> u8 list \<Rightarrow> state \<Rightarrow> u8 list outcome" where
  "checked bad lineno msg code st =
     (if bad then and_then (error lineno msg st) (\<lambda>_. Ret code) else Ret code st)"

definition is_sugar :: "char \<Rightarrow> bool" where
  "is_sugar kd = (kd \<in> set ''raEb!mlIg'')"

function encode :: "nat \<Rightarrow> bool \<Rightarrow> u32 \<Rightarrow> char \<Rightarrow> u32 \<Rightarrow> (nat \<Rightarrow> arg_t) \<Rightarrow> state \<Rightarrow> u8 list outcome" where
  "encode lineno out pc kd w va st =
     (if kd = CHR ''N'' then
        Ret [b8 (drop_bit 8 w), b8 w] st
      else if kd = CHR ''R'' then
        Ret [b8 (drop_bit 8 w OR rno (va 0)), b8 (push_bit 4 (rno (va 1)) OR rno (va 2))] st
      else if kd = CHR ''r'' then
        (let va1 = set_rno va 2 (rno (va 1));
             va2 = set_rno va1 1 (rno (va1 0))
         in encode lineno out pc CHR ''R'' w va2 st)
      else if kd = CHR ''a'' then
        (let va1 = set_val va 2 (val (va 1));
             va2 = set_rno va1 1 (rno (va1 0))
         in encode lineno out pc CHR ''A'' w va2 st)
      else if kd = CHR ''A'' then
        checked (out \<and> (32768 \<le>s val (va 2) \<or> val (va 2) <s - 32768)) lineno ''inmediate out of range''
          [b8 (drop_bit 8 w OR rno (va 0)), b8 (w OR push_bit 4 (rno (va 1))),
           b8 (signed_drop_bit 8 (val (va 2))), b8 (val (va 2))] st
      else if kd = CHR ''U'' then
        Ret [b8 (drop_bit 8 w OR rno (va 0)), b8 (w OR push_bit 4 (rno (va 1)))] st
      else if kd = CHR ''u'' then
        Ret [b8 (drop_bit 8 w OR rno (va 0)), b8 (w OR push_bit 4 (rno (va 0)))] st
      else if kd = CHR ''E'' then
        (let va1 = set_rno (set_rno va 1 0) 0 0;
             va2 = set_val va1 2 (val (va1 0))
         in encode lineno out pc CHR ''A'' w va2 st)
      else if kd = CHR ''B'' then
        (let off = sdiv32 (val (va 0) - (pc + 4)) 2
         in checked (out \<and> (32768 \<le>s off \<or> off <s - 32768)) lineno ''branch out of range''
              [b8 (drop_bit 8 w), b8 w, b8 (signed_drop_bit 8 off), b8 off] st)
      else if kd = CHR ''b'' then
        (let w1 = w OR (push_bit 8 (rno (va 0)) OR push_bit 4 (rno (va 1)));
             va1 = set_val va 0 (val (va 2))
         in encode lineno out pc CHR ''B'' w1 va1 st)
      else if kd = CHR ''!'' then
        (let w1 = w OR push_bit 8 (rno (va 0));
             va1 = set_val va 0 (val (va 1))
         in encode lineno out pc CHR ''B'' w1 va1 st)
      else if kd = CHR ''M'' then
        checked (out \<and> (32768 \<le>s val (va 1) \<or> val (va 1) <s - 32768)) lineno ''memory offset out of range''
          [b8 (drop_bit 8 w OR rno (va 0)), b8 (w OR push_bit 4 (rno (va 1))),
           b8 (signed_drop_bit 8 (val (va 1))), b8 (val (va 1))] st
      else if kd = CHR ''m'' then
        (let va1 = set_rno va 2 (rno (va 1));
             va2 = set_rno va1 1 (rno (va1 0));
             va3 = set_val va2 1 (val (va2 0));
             va4 = set_rno va3 0 (rno (va3 2))
         in encode lineno out pc CHR ''M'' w va4 st)
      else if kd = CHR ''J'' then
        (let off = sdiv32 (val (va 0) - (pc + 6)) 2
         in Ret [b8 (drop_bit 8 w), b8 w, b8 (signed_drop_bit 24 off), b8 (signed_drop_bit 16 off),
                 b8 (signed_drop_bit 8 off), b8 off] st)
      else if kd = CHR ''L'' then
        (let off = val (va 1) - (pc + 6)
         in Ret [b8 (drop_bit 8 w), b8 (w OR push_bit 4 (rno (va 0))),
                 b8 (signed_drop_bit 24 off), b8 (signed_drop_bit 16 off),
                 b8 (signed_drop_bit 8 off), b8 off] st)
      else if kd = CHR ''l'' then
        (if rno (va 1) = 15 then
           (let va1 = set_rno va 1 (rno (va 0));
                va2 = set_rno va1 0 0
            in encode lineno out pc CHR ''M'' w va2 st)
         else
           (let va1 = set_val va 2 (val (va 1))
            in encode lineno out pc CHR ''A'' 0x3004 va1 st))
      else if kd = CHR ''I'' then
        (let n = val (va 1)
         in if n = 0 then Ret [b8 (0x80 OR rno (va 0)), 0xff] st
            else if n = 1 then Ret [b8 (0x00 OR rno (va 0)), 0xf8] st
            else if - 32768 \<le>s n \<and> n \<le>s 32767 then
              (let va1 = set_rno va 1 0;
                   va2 = set_val va1 2 (val (va1 1))
               in encode lineno out pc CHR ''A'' 0x30f9 va2 st)
            else Ret [b8 (drop_bit 8 w), b8 (w OR push_bit 4 (rno (va 0))),
                      b8 (signed_drop_bit 24 n), b8 (signed_drop_bit 16 n),
                      b8 (signed_drop_bit 8 n), b8 n] st)
      else if kd = CHR ''1'' then
        Ret [b8 (drop_bit 8 w), b8 (w OR push_bit 4 (rno (va 0)))] st
      else if kd = CHR ''='' then
        Ret [b8 (drop_bit 8 w OR rno (va 0)), b8 (w OR rno (va 1))] st
      else if kd = CHR ''G'' then
        checked (out \<and> (val (va 1) <s 0 \<or> 15 <s val (va 1))) lineno ''special register of range''
          [b8 (drop_bit 8 w), b8 (w OR push_bit 4 (rno (va 0))),
           b8 (signed_drop_bit 8 (val (va 1))), b8 (val (va 1))] st
      else if kd = CHR ''g'' then
        (let va1 = set_rno va 0 (rno (va 1));
             va2 = set_val va1 1 (val (va1 0))
         in encode lineno out pc CHR ''G'' w va2 st)
      else
        and_then (error lineno ''opcode type'' st) (\<lambda>_. Ret []))"
  by pat_completeness auto
termination
  by (relation "measure (\<lambda>(lineno, out, pc, kd, w, va, st). if is_sugar kd then 1 else 0)")
     (auto simp add: is_sugar_def)

subsection \<open>two pass assembler\<close>

text \<open>
  \<open>readline\<close>: the bytes of \<open>fd\<close> up to and with the next newline, and the rest of the
  file.  \<open>assemble\<close> exits when \<open>MAX_LINE\<close> bytes were read, and stops when none was.
\<close>

fun read_line :: "u8 list \<Rightarrow> u8 list \<times> u8 list" where
  "read_line [] = ([], [])"
| "read_line (c # fd) =
     (if c = 10 then ([c], fd) else (let (buf, rest) = read_line fd in (c # buf, rest)))"

text \<open>The optional label of a line: \<open>lbl\<close>, the new \<open>mainlbl\<close> and \<open>*pmore\<close>, the pointer behind.\<close>

definition asm_label ::
  "nat \<Rightarrow> bool \<Rightarrow> nat \<Rightarrow> u32 \<Rightarrow> u8 list \<Rightarrow> nat option \<Rightarrow> bool \<Rightarrow> state
     \<Rightarrow> (nat option \<times> nat option \<times> bool \<times> u8 list) outcome" where
  "asm_label pass out lineno pc p mainlbl pmore st =
     (if isalpha (peek p) \<or> peek p = CH CHR ''.'' then
        (let local = (peek p = CH CHR ''.'');
             (id', p1) = scan_upper is_name_char (if local then tl p else p);
             master = (if local then mainlbl else None)
         in and_then (if local \<and> mainlbl = None
                      then error lineno ''local label without main label'' st else Ret () st)
              (\<lambda>_ st1.
                 and_then
                   (case find_label st1 master id' of
                      Some l \<Rightarrow>
                        (if pass = 0 then
                           and_then (error lineno ''duplicated label'' st1) (\<lambda>_. Ret (l, pmore))
                         else if flags (tlabel st1 l) AND LABEL_EQU = 0 \<and> value (tlabel st1 l) \<noteq> pc then
                           Ret (l, True) (st1\<lparr>tlabel := (tlabel st1)(l := (tlabel st1 l)\<lparr>value := pc\<rparr>)\<rparr>)
                         else Ret (l, pmore) st1)
                    | None \<Rightarrow>
                        and_then (add_label master id' pc st1)
                          (\<lambda>l st2. if out
                                    then and_then (error lineno ''undefined label on last pass !'' st2)
                                           (\<lambda>_. Ret (l, True))
                                    else Ret (l, True) st2))
                   (\<lambda>(l, pmore1) st2.
                      Ret (Some l, (if \<not> local then Some l else mainlbl), pmore1,
                           (if peek p1 = CH CHR '':'' then tl p1 else p1)) st2)))
      else Ret (None, mainlbl, pmore, p) st)"

text \<open>
  What the body of a line leaves: \<open>Next\<close> when the line is given up (\<open>continue\<close>,
  \<open>goto next\<close>), else the bytes put into \<open>code\<close>, the variables \<open>bytes\<close>, \<open>space\<close>, \<open>org\<close>
  and the pointer reached.  The listing written to standard output is not part of the model.
\<close>

datatype body = Next | Body "u8 list" u32 u32 bool "u8 list"

text \<open>\<open>for (++p; *p && *p != '"';) code[bytes++] = *p++;\<close>\<close>

fun scan_string :: "u8 list \<Rightarrow> u8 list \<times> u8 list" where
  "scan_string [] = ([], [])"
| "scan_string (c # p) =
     (if c \<noteq> 0 \<and> c \<noteq> 0x22 then (let (s, q) = scan_string p in (c # s, q)) else ([], c # p))"

text \<open>The loops of \<open>.BYTE\<close> and \<open>.WORD\<close>: \<open>None\<close> is \<open>goto next\<close>.\<close>

partial_function (option) byte_loop ::
  "nat \<Rightarrow> nat option \<Rightarrow> bool \<Rightarrow> u32 \<Rightarrow> u8 list \<Rightarrow> u8 list \<Rightarrow> state
     \<Rightarrow> (u8 list \<times> u8 list) option outcome option" where
  "byte_loop lineno mainlbl out pc code p0 st =
     (let p = skip_blanks p0 in
      then_do
        (if peek p = 0x22 then
           (let (s, q) = scan_string (tl p)
            in if peek q \<noteq> 0x22
               then Some (and_then (error lineno ''incomplete string'' st) (\<lambda>_. Ret None))
               else Some (Ret (Some (code @ s, skip_blanks (tl q))) st))
         else
           then_do (expr lineno mainlbl (\<not> out) pc p st)
             (\<lambda>vp st1. case vp of
                  None \<Rightarrow> Some (Ret None st1)
                | Some (q, v) \<Rightarrow>
                    Some (and_then (if out \<and> v > 255 then error lineno ''.BYTE overflow'' st1
                                    else Ret () st1)
                            (\<lambda>_. Ret (Some (code @ [b8 v], q))))))
        (\<lambda>r st1. case r of
             None \<Rightarrow> Some (Ret None st1)
           | Some (code1, q) \<Rightarrow>
               if peek q \<noteq> CH CHR '','' then Some (Ret (Some (code1, q)) st1)
               else byte_loop lineno mainlbl out pc code1 (tl q) st1))"

partial_function (option) word_loop ::
  "nat \<Rightarrow> nat option \<Rightarrow> bool \<Rightarrow> u32 \<Rightarrow> u8 list \<Rightarrow> u8 list \<Rightarrow> state
     \<Rightarrow> (u8 list \<times> u8 list) option outcome option" where
  "word_loop lineno mainlbl out pc code p st =
     then_do (expr lineno mainlbl (\<not> out) pc p st)
       (\<lambda>vp st1. case vp of
            None \<Rightarrow> Some (Ret None st1)
          | Some (q, v) \<Rightarrow>
              then_do (Some (if out \<and> v > 65536 then error lineno ''.WORD overflow'' st1
                             else Ret () st1))
                (\<lambda>_ st2. if peek q \<noteq> CH CHR '','' then Some (Ret (Some (code @ [b8 (drop_bit 8 v), b8 v], q)) st2)
                          else word_loop lineno mainlbl out pc (code @ [b8 (drop_bit 8 v), b8 v]) (tl q) st2))"

text \<open>A line whose body starts with \<open>.\<close>; \<open>lbl\<close> is the label of the line.\<close>

definition directive ::
  "nat \<Rightarrow> nat option \<Rightarrow> nat option \<Rightarrow> bool \<Rightarrow> u32 \<Rightarrow> u8 list \<Rightarrow> state \<Rightarrow> body outcome option" where
  "directive lineno mainlbl lbl out pc p0 st =
     (let (tmp, p1) = scan_upper isalpha (tl p0); p = skip_blanks p1 in
      if tmp = ascii ''ORG'' then
        then_do (expr lineno mainlbl False pc p st)
          (\<lambda>vp st1. Some (Ret (case vp of None \<Rightarrow> Next | Some (q, v) \<Rightarrow> Body [] (v - pc) 0 True q) st1))
      else if tmp = ascii ''EQU'' then
        then_do (expr lineno mainlbl False pc p st)
          (\<lambda>vp st1. case vp of
               None \<Rightarrow> Some (Ret Next st1)
             | Some (q, v) \<Rightarrow>
                 (case lbl of
                    Some l \<Rightarrow>
                      Some (Ret (Body [] 0 0 False q)
                        (st1\<lparr>tlabel := (tlabel st1)(l := (tlabel st1 l)
                               \<lparr>value := v, flags := flags (tlabel st1 l) OR (LABEL_USED OR LABEL_EQU)\<rparr>)\<rparr>))
                  | None \<Rightarrow> Some (and_then (error lineno ''.EQU without label'' st1) (\<lambda>_. Ret Next))))
      else if tmp = ascii ''ZERO'' then
        then_do (expr lineno mainlbl False pc p st)
          (\<lambda>vp st1. case vp of
               None \<Rightarrow> Some (Ret Next st1)
             | Some (q, v) \<Rightarrow>
                 if v > of_nat MAX_LINE
                 then Some (and_then (error lineno ''.ZERO size overflow'' st1) (\<lambda>_. Ret Next))
                 else Some (Ret (Body (replicate (unat v) 0) v 0 False q) st1))
      else if tmp = ascii ''SPACE'' then
        then_do (expr lineno mainlbl False pc p st)
          (\<lambda>vp st1. Some (Ret (case vp of None \<Rightarrow> Next | Some (q, v) \<Rightarrow> Body [] v v False q) st1))
      else if tmp = ascii ''BYTE'' then
        then_do (byte_loop lineno mainlbl out pc [] p st)
          (\<lambda>r st1. Some (Ret (case r of None \<Rightarrow> Next
                                | Some (code, q) \<Rightarrow> Body code (of_nat (length code)) 0 False q) st1))
      else if tmp = ascii ''WORD'' then
        then_do (word_loop lineno mainlbl out pc [] p st)
          (\<lambda>r st1. Some (Ret (case r of None \<Rightarrow> Next
                                | Some (code, q) \<Rightarrow> Body code (of_nat (length code)) 0 False q) st1))
      else Some (and_then (error lineno ''unknown directive'' st) (\<lambda>_. Ret Next)))"

text \<open>
  One argument of an instruction, read into the slot \<open>a\<close> of \<open>va\<close>: the line is given
  up, or the loop over the arguments is left, or the slot is filled.
\<close>

datatype arg_result = ArgNext | ArgBreak | ArgOk arg_t "u8 list"

definition mem_arg ::
  "nat \<Rightarrow> nat option \<Rightarrow> bool \<Rightarrow> u32 \<Rightarrow> arg_t \<Rightarrow> u8 list \<Rightarrow> state \<Rightarrow> arg_result outcome option" where
  "mem_arg lineno mainlbl out pc a p0 st =
     (let (tmp, p1) = scan_upper isalnum (skip_blanks (tl p0));
          a1 = a\<lparr>k := M, val := 0, rno := reg_find tmp\<rparr>
      in then_do (Some (if rno a1 <s 0 then error lineno ''unknown register'' st else Ret () st))
           (\<lambda>_ st1.
              let p = skip_blanks p1 in
              then_do
                (if peek p = CH CHR ''+'' \<or> peek p = CH CHR ''-'' then
                   then_do (expr lineno mainlbl (\<not> out) pc (tl p) st1)
                     (\<lambda>vp st2. Some (Ret (case vp of
                           None \<Rightarrow> None
                         | Some (q, v) \<Rightarrow>
                             Some (a1\<lparr>val := (if peek p = CH CHR ''-'' then 0 - v else v)\<rparr>, q)) st2))
                 else Some (Ret (Some (a1, p)) st1))
                (\<lambda>r st2. case r of
                     None \<Rightarrow> Some (Ret ArgNext st2)
                   | Some (a2, q) \<Rightarrow>
                       if peek q \<noteq> CH CHR '']''
                       then Some (and_then (error lineno (''memory access arg without '' @ [CHR 0x27, CHR '']'', CHR 0x27]) st2)
                                    (\<lambda>_. Ret ArgNext))
                       else Some (Ret (ArgOk a2 (tl q)) st2))))"

definition starts_expr :: "u8 \<Rightarrow> bool" where
  "starts_expr c = (c = CH CHR '':'' \<or> c = CH CHR ''.'' \<or> c = CH CHR ''$'' \<or> c = CH (CHR 0x27)
                    \<or> c = CH CHR ''-'' \<or> isdigit c)"

definition parse_arg ::
  "nat \<Rightarrow> nat option \<Rightarrow> bool \<Rightarrow> u32 \<Rightarrow> arg_t \<Rightarrow> u8 list \<Rightarrow> state \<Rightarrow> arg_result outcome option" where
  "parse_arg lineno mainlbl out pc a p st =
     (if isalpha (peek p) then
        (let (tmp, q) = scan_upper isalnum p in
         if reg_find tmp <s 0 then
           then_do (expr lineno mainlbl (if out then False else True) pc p st)
             (\<lambda>vp st1. Some (Ret (case vp of None \<Rightarrow> ArgNext
                                   | Some (q1, v) \<Rightarrow> ArgOk (a\<lparr>k := N, val := v\<rparr>) q1) st1))
         else Some (Ret (ArgOk (a\<lparr>k := R, rno := reg_find tmp\<rparr>) q) st))
      else if peek p = CH CHR ''['' then mem_arg lineno mainlbl out pc a p st
      else if starts_expr (peek p) then
        then_do (expr lineno mainlbl (\<not> out) pc p st)
          (\<lambda>vp st1. Some (Ret (case vp of None \<Rightarrow> ArgNext
                                | Some (q1, v) \<Rightarrow> ArgOk (a\<lparr>k := N, val := v\<rparr>) q1) st1))
      else Some (Ret ArgBreak st))"

text \<open>\<open>for (bool sep = false; na < 3;)\<close>: the arguments \<open>va\<close>, their number and the pointer.\<close>

partial_function (option) args_loop ::
  "nat \<Rightarrow> nat option \<Rightarrow> bool \<Rightarrow> u32 \<Rightarrow> bool \<Rightarrow> (nat \<Rightarrow> arg_t) \<Rightarrow> nat \<Rightarrow> u8 list \<Rightarrow> state
     \<Rightarrow> ((nat \<Rightarrow> arg_t) \<times> nat \<times> u8 list) option outcome option" where
  "args_loop lineno mainlbl out pc sep va na p0 st =
     (if na < 3 then
        (let p = skip_blanks p0 in
         if peek p = CH CHR '','' then
           then_do (Some (if \<not> sep then error lineno (''unexpected '' @ [CHR 0x27, CHR '','', CHR 0x27]) st
                          else Ret () st))
             (\<lambda>_ st1. args_loop lineno mainlbl out pc False va na (tl p) st1)
         else
           then_do (parse_arg lineno mainlbl out pc (va na) p st)
             (\<lambda>r st1. case r of
                  ArgNext \<Rightarrow> Some (Ret None st1)
                | ArgBreak \<Rightarrow> Some (Ret (Some (va, na, p)) st1)
                | ArgOk a q \<Rightarrow> args_loop lineno mainlbl out pc True (va(na := a)) (Suc na) q st1))
      else Some (Ret (Some (va, na, p0)) st))"

text \<open>A line whose body starts with a letter.  No row of \<open>tmatch\<close> makes the encoder read
  a field of \<open>va\<close> that the arguments did not set, so \<open>va\<close> starts as zeros here.\<close>

definition va_init :: "nat \<Rightarrow> arg_t" where
  "va_init = (\<lambda>_. \<lparr>k = NoArg, rno = 0, val = 0\<rparr>)"

definition instruction ::
  "nat \<Rightarrow> nat option \<Rightarrow> bool \<Rightarrow> u32 \<Rightarrow> u8 list \<Rightarrow> state \<Rightarrow> body outcome option" where
  "instruction lineno mainlbl out pc p0 st =
     (let (tmp, p1) = scan_upper isalnum p0 in
      case op_find tmp of
        None \<Rightarrow> Some (and_then (error lineno ''unknown opcode'' st) (\<lambda>_. Ret Next))
      | Some op \<Rightarrow>
          then_do (args_loop lineno mainlbl out pc False va_init 0 p1 st)
            (\<lambda>r st1. case r of
                 None \<Rightarrow> Some (Ret Next st1)
               | Some (va, na, p2) \<Rightarrow>
                   (case match op na va of
                      None \<Rightarrow> Some (and_then (error lineno ''unknown combination of opcode and args'' st1)
                                       (\<lambda>_. Ret Next))
                    | Some (eop, ena, eargs, ekind, eword) \<Rightarrow>
                        Some (and_then (encode lineno out pc ekind eword va st1)
                                (\<lambda>code. Ret (Body code (of_nat (length code)) 0 False (skip_blanks p2)))))))"

text \<open>\<open>for (i = 0; i < bytes; i++) emit (pc + i, code[i]);\<close>, the address cut to \<open>uint16_t\<close>.\<close>

fun emit_code :: "u32 \<Rightarrow> u8 list \<Rightarrow> state \<Rightarrow> state" where
  "emit_code at [] st = st"
| "emit_code at (byte # code) st = emit_code (at + 1) code (emit (ucast at) byte st)"

text \<open>One turn of the loop of \<open>assemble\<close> on the line \<open>buffer\<close>: the new \<open>pc\<close>, \<open>mainlbl\<close>, \<open>*pmore\<close>.\<close>

definition asm_line ::
  "nat \<Rightarrow> bool \<Rightarrow> nat \<Rightarrow> u8 list \<Rightarrow> u32 \<Rightarrow> nat option \<Rightarrow> bool \<Rightarrow> state
     \<Rightarrow> (u32 \<times> nat option \<times> bool) outcome option" where
  "asm_line pass out lineno buffer pc mainlbl pmore st =
     then_do (Some (asm_label pass out lineno pc buffer mainlbl pmore st))
       (\<lambda>(lbl, mainlbl1, pmore1, p0) st1.
          let p = skip_blanks p0 in
          then_do
            (if peek p = CH CHR ''.'' then directive lineno mainlbl1 lbl out pc p st1
             else if isalpha (peek p) then instruction lineno mainlbl1 out pc p st1
             else Some (Ret (Body [] 0 0 False p) st1))
            (\<lambda>b st2. case b of
                 Next \<Rightarrow> Some (Ret (pc, mainlbl1, pmore1) st2)
               | Body code bytes space org q \<Rightarrow>
                   (let st3 = (if out \<and> \<not> org \<and> bytes \<noteq> 0 \<and> space = 0
                               then emit_code pc code st2 else st2);
                        pc1 = pc + bytes
                    in if peek q = 0 \<or> peek q = CH CHR '';'' \<or> peek q = CH CHR ''#''
                       then Some (Ret (pc1, mainlbl1, pmore1) st3)
                       else Some (and_then (error lineno ''extra characters at end'' st3)
                                    (\<lambda>_. Ret (pc1, mainlbl1, pmore1))))))"

partial_function (option) assemble_loop ::
  "u8 list \<Rightarrow> nat \<Rightarrow> bool \<Rightarrow> u32 \<Rightarrow> bool \<Rightarrow> nat \<Rightarrow> nat option \<Rightarrow> state \<Rightarrow> (u32 \<times> bool) outcome option" where
  "assemble_loop fd pass out pc pmore lineno mainlbl st =
     (case read_line fd of (buffer, rest) \<Rightarrow>
        if length buffer \<ge> MAX_LINE then Some (Exit st)
        else if buffer = [] then Some (Ret (pc, pmore) st)
        else then_do (asm_line pass out (lineno + 1) buffer pc mainlbl pmore st)
               (\<lambda>r st1. case r of (pc1, mainlbl1, pmore1) \<Rightarrow>
                  assemble_loop rest pass out pc1 pmore1 (lineno + 1) mainlbl1 st1))"

text \<open>\<open>assemble (fd, pass, out, pc, listing, pmore)\<close>: the final \<open>pc\<close> and \<open>*pmore\<close>.\<close>

definition assemble :: "u8 list \<Rightarrow> nat \<Rightarrow> bool \<Rightarrow> u32 \<Rightarrow> bool \<Rightarrow> state \<Rightarrow> (u32 \<times> bool) outcome option" where
  "assemble fd pass out pc pmore st = assemble_loop fd pass out pc pmore 0 None st"

subsection \<open>entry point\<close>

text \<open>The loop of \<open>main\<close> over the input files of one pass.\<close>

partial_function (option) assemble_files ::
  "u8 list list \<Rightarrow> nat \<Rightarrow> bool \<Rightarrow> u32 \<Rightarrow> bool \<Rightarrow> state \<Rightarrow> (u32 \<times> bool) outcome option" where
  "assemble_files files pass last' pc pmore st =
     (case files of
        [] \<Rightarrow> Some (Ret (pc, pmore) st)
      | fd # rest \<Rightarrow>
          then_do (assemble fd pass last' pc pmore st)
            (\<lambda>r st1. case r of (pc1, pmore1) \<Rightarrow> assemble_files rest pass last' pc1 pmore1 st1))"

text \<open>
  One turn of the loop of \<open>main\<close>, up to its flags logic: opening the output file again
  empties it; the result is the flag \<open>more\<close>.
\<close>

definition do_pass :: "u8 list list \<Rightarrow> nat \<Rightarrow> bool \<Rightarrow> state \<Rightarrow> bool outcome option" where
  "do_pass files pass last' st =
     then_do (assemble_files files pass last' 0 False (if pass \<noteq> 0 then st\<lparr>ofile := []\<rparr> else st))
       (\<lambda>r st1. case r of (pc, pmore) \<Rightarrow> Some (Ret pmore (if last' then emit_done st1 else st1)))"

text \<open>
  \<open>for (; !errcount && another; ++pass)\<close>: the number of passes made.  Nothing bounds
  the number of passes.
\<close>

partial_function (option) main_loop ::
  "u8 list list \<Rightarrow> nat \<Rightarrow> bool \<Rightarrow> bool \<Rightarrow> state \<Rightarrow> nat outcome option" where
  "main_loop files pass another last' st =
     (if errcount st = 0 \<and> another then
        then_do (do_pass files pass last' st)
          (\<lambda>pmore st1.
             if last' then main_loop files (pass + 1) False last' st1
             else if \<not> pmore then main_loop files (pass + 1) another True st1
             else main_loop files (pass + 1) another last' st1)
      else Some (Ret pass st))"

text \<open>\<open>main\<close> on the input files: the exit status.\<close>

definition main :: "u8 list list \<Rightarrow> nat outcome option" where
  "main files =
     then_do (main_loop files 0 True False init_state)
       (\<lambda>pass st. Some (Ret (if errcount st \<noteq> 0 then 1 else 0) st))"


section \<open>Properties\<close>

subsection \<open>Words and bytes\<close>

lemma mod32_mod8: "(x mod 4294967296) mod 256 = (x::nat) mod 256"
  by (rule mod_mod_cancel) simp

lemma unat_ucast_u8: "unat (ucast (w :: u32) :: u8) = unat w mod 256"
  by (simp add: unsigned_ucast_eq take_bit_eq_mod)

lemma ucast_add_u8: "(ucast (a + b :: u32) :: u8) = ucast a + ucast b"
  by (simp add: word_unat_eq_iff unat_ucast_u8 unat_word_ariths mod32_mod8 mod_simps)

lemma ucast_nat_u8: "(ucast (of_nat n :: u32) :: u8) = of_nat n"
  by (simp add: word_unat_eq_iff unat_ucast_u8 unat_of_nat mod32_mod8)

lemma ucast_ucast_u8: "(ucast (ucast (c::u8) :: u32) :: u8) = c"
  by (rule ucast_up_ucast_id) (simp add: is_up)

lemma ucast_neg_u8: "(ucast (0 - (ucast (c::u8)) :: u32) :: u8) = - c"
proof -
  have "(ucast (0 - (ucast c) :: u32) :: u8) + c = ucast ((0 - ucast c :: u32) + ucast c)"
    by (simp only: ucast_add_u8 ucast_ucast_u8)
  also have "\<dots> = 0" by simp
  finally show ?thesis by (simp add: eq_neg_iff_add_eq_0)
qed

lemma unat_sum_list_u8: "unat (sum_list (xs :: u8 list)) = sum_list (map unat xs) mod 256"
  by (induction xs) (simp_all add: unat_word_ariths mod_simps)

lemma crc_loop_sum: "crc_loop crc xs = crc + sum_list xs"
  by (induction xs arbitrary: crc) (simp_all add: add.assoc)

lemma mask4: "(15::u32) = mask 4"
  by (simp add: mask_eq_exp_minus_1)

lemma low_nibble_ucast: "(ucast (ucast n :: u8) :: u32) AND 15 = n AND 15"
  unfolding mask4 by (rule bit_word_eqI) (auto simp add: bit_simps)

lemma high_nibble_ucast: "drop_bit 4 (ucast (ucast n :: u8) :: u32) AND 15 = drop_bit 4 n AND 15"
  unfolding mask4 by (rule bit_word_eqI) (auto simp add: bit_simps)

lemma fmt_b_low: "fmt_b (ucast (ucast n :: u8)) = fmt_b n"
  by (simp add: fmt_b_def low_nibble_ucast high_nibble_ucast)

lemma fmt_w_split: "fmt_w n = fmt_b (ucast (ucast (drop_bit 8 n) :: u8)) @ fmt_b (ucast (ucast n :: u8))"
  by (simp add: fmt_b_low) (simp add: fmt_b_def fmt_w_def)

lemma fmt_b_00: "ascii ''00'' = fmt_b (ucast (0::u8))"
  by (simp add: fmt_b_def ascii_def hdigit_def)

lemma mask8: "(255::u32) = mask 8"
  by (simp add: mask_eq_exp_minus_1)

lemma and_ff: "n AND 0x0ff = (ucast (ucast n :: u8) :: u32)"
  unfolding mask8 by (rule bit_word_eqI) (auto simp add: bit_simps)

subsection \<open>Evaluating the model\<close>

lemma then_do_simps:
  "then_do None f = None"
  "then_do (Some (Ret x st)) f = f x st"
  "then_do (Some (Exit st)) f = Some (Exit st)"
  "then_do (Some Undefined) f = Some Undefined"
  by (simp_all add: then_do_def)

lemma and_then_simps:
  "and_then (Ret x st) g = g x st"
  "and_then (Exit st) g = Exit st"
  "and_then Undefined g = Undefined"
  by (simp_all add: and_then_def)

text \<open>The continuation of a call is looked at only when the call has been evaluated.\<close>

lemma then_do_cong: "m = m' \<Longrightarrow> then_do m f = then_do m' f"
  by simp

lemma and_then_cong: "r = r' \<Longrightarrow> and_then r g = and_then r' g"
  by simp

lemma ucast_down_neg_numeral_u8:
  "(ucast (- numeral n :: u32) :: u8) = - numeral n"
proof -
  have "(ucast (word_of_int (- numeral n) :: u32) :: u8) = word_of_int (- numeral n)"
    by (rule ucast_down_wi) (simp add: is_down)
  then show ?thesis by (simp only: of_int_neg_numeral of_int_numeral of_int_minus)
qed

lemma ucast_up_neg_numeral_u8:
  "(ucast (- numeral n :: u8) :: u32) = word_of_int (take_bit 8 (- numeral n))"
  by (simp only: ucast_eq uint_bintrunc_neg) simp

lemma ucast_up_neg_one_u8: "(ucast (- 1 :: u8) :: u32) = 255"
  by (simp add: unsigned_minus_1_eq_mask mask_eq_exp_minus_1)

lemma ucast_down_neg_one_u8: "(ucast (- 1 :: u32) :: u8) = - 1"
  using ucast_down_neg_numeral_u8[of num.One] by simp

lemma numeral_le_one_u32: "((numeral n :: u32) \<le> 1) = (unat (numeral n :: u32) \<le> 1)"
  by (simp only: word_le_nat_alt unat_1 unsigned_1)

lemmas word_eval = word_sless_alt word_sle_eq signed_divide_int_def numeral_le_one_u32
  ucast_down_neg_numeral_u8 ucast_up_neg_numeral_u8 ucast_up_neg_one_u8 ucast_down_neg_one_u8

lemmas lex_defs = ascii_def peek_def peek_at_def isdigit_def isalpha_def isalnum_def islower_def
  toupper_def is_operator_def is_name_char_def hex_digit_def starts_expr_def

lemmas expr_defs = expr_def expr_item_def expr_push_def expr_done_def expr_max_def binop_def
  expr_label_def find_label_def error_def MAX_ERRORS_def MAX_CHAR_LABEL_def LABEL_USED_def
  LABEL_EQU_def

lemmas asm_defs = asm_line_def asm_label_def directive_def instruction_def parse_arg_def
  mem_arg_def add_label_def MAX_LINE_def MAX_LABELS_def va_init_def match_def tmatch_def
  op_find_def vop_def reg_find_def vreg_def opcode_defs checked_def b8_def sdiv32_def
  set_rno_def set_val_def assemble_def main_def

lemmas emit_defs = emit_def emit_flush_def emit_done_def pending_def OUTPUT_LINE_BYTES_def
  fmt_b_def fmt_w_def hdigit_def

text \<open>The encoder is unfolded only where a proof asks for it.\<close>

declare encode.simps [simp del]

lemmas loop_simps = expr_loop.simps args_loop.simps byte_loop.simps word_loop.simps
  assemble_loop.simps assemble_files.simps main_loop.simps encode.simps

lemmas run_simps = loop_simps lex_defs expr_defs asm_defs emit_defs then_do_simps and_then_simps
  Let_def init_state_def word_eval do_pass_def

subsection \<open>The HEX records\<close>

text \<open>
  C7: every data record written by \<open>emit_flush\<close> is \<open>:\<close> followed by the hex digits of
  the byte count, the two address bytes, the record type 0, the data bytes and a checksum
  byte \<open>cc\<close>, and the sum of all these bytes has low byte 0.
\<close>

theorem emit_flush_checksum:
  assumes "pending st \<noteq> 0"
  shows "\<exists>cc. ofile (emit_flush st) = ofile st @ ascii '':'' @ concat (map (\<lambda>byte. fmt_b (ucast byte)) (record_bytes st cc)) @ [10]
           \<and> sum_list (map unat (record_bytes st cc)) mod 256 = 0"
proof -
  define crc where "crc = crc_loop (ucast ((of_nat (pending st) :: u32) + drop_bit 8 (basepc st) + basepc st)) (line st)"
  have crc: "crc = of_nat (pending st) + ucast (drop_bit 8 (basepc st)) + ucast (basepc st) + sum_list (line st)"
    by (simp add: crc_def crc_loop_sum ucast_add_u8 ucast_nat_u8)
  have cc: "fmt_b ((- ucast crc :: u32) AND 255) = fmt_b (ucast (- crc))"
    using arg_cong[OF ucast_neg_u8[of crc], of "\<lambda>x. fmt_b (ucast x)"]
    by (simp add: and_ff fmt_b_low)
  have cnt: "fmt_b (of_nat (pending st)) = fmt_b (ucast (of_nat (pending st) :: u8))"
    using fmt_b_low[of "of_nat (pending st)"] by (simp only: ucast_nat_u8)
  have out: "ofile (emit_flush st) = ofile st @ ascii '':'' @ concat (map (\<lambda>byte. fmt_b (ucast byte)) (record_bytes st (- crc))) @ [10]"
    using assms
    by (simp add: emit_flush_def Let_def crc_def[symmetric] cc cnt[symmetric] record_bytes_def fmt_w_split fmt_b_00
         fmt_b_low)
  have "sum_list (record_bytes st (- crc)) = 0"
    by (simp add: record_bytes_def crc)
  then have "unat (sum_list (record_bytes st (- crc))) = 0" by simp
  then have "sum_list (map unat (record_bytes st (- crc))) mod 256 = 0"
    by (simp only: unat_sum_list_u8)
  with out show ?thesis by (intro exI[of _ "- crc"] conjI)
qed

lemma emit_flush_nop_record: "ofile (emit_flush (emit 1 0xF1 (emit 0 0x0F init_state))) = ascii '':020000000FF1FE'' @ [10]"
  by (simp add: init_state_def emit_def emit_flush_def pending_def OUTPUT_LINE_BYTES_def Let_def fmt_b_def fmt_w_def hdigit_def ascii_def)

theorem emit_flush_checksum_witness:
  "pending (emit 1 0xF1 (emit 0 0x0F init_state)) \<noteq> 0 \<and>
   (\<exists>cc. ofile (emit_flush (emit 1 0xF1 (emit 0 0x0F init_state))) =
      ofile (emit 1 0xF1 (emit 0 0x0F init_state)) @ ascii '':'' @
      concat (map (\<lambda>byte. fmt_b (ucast byte)) (record_bytes (emit 1 0xF1 (emit 0 0x0F init_state)) cc)) @ [10]
      \<and> sum_list (map unat (record_bytes (emit 1 0xF1 (emit 0 0x0F init_state)) cc)) mod 256 = 0)"
proof -
  have h: "pending (emit 1 0xF1 (emit 0 0x0F init_state)) \<noteq> 0"
    by (simp add: init_state_def emit_def pending_def OUTPUT_LINE_BYTES_def Let_def)
  show ?thesis using h emit_flush_checksum[OF h] by simp
qed





text \<open>A program that crosses \<open>0xFFFF\<close>: the second byte of \<open>NOP\<close> is recorded at address 0000.\<close>

lemma emit_wraps_example:
  "(case main [ascii '' .ORG $FFFF'' @ [10] @ ascii '' NOP'' @ [10]] of
      Some (Ret s st) \<Rightarrow>
        s = 0 \<and> ofile st = ascii '':01FFFF000FF2'' @ [10] @ ascii '':01000000F10E'' @ [10]
                           @ ascii '':00000001FF'' @ [10]
    | _ \<Rightarrow> False)"
  by (simp add: run_simps cong: then_do_cong and_then_cong)

subsection \<open>The expression evaluator\<close>

lemma expr_loop_next:
  "expr_loop l m u pc p0 sval sop st =
     then_do (expr_next l m u pc p0 st)
       (\<lambda>it st1. case it of
            Brk q \<Rightarrow> Some (expr_done l q sval sop st1)
          | Itm op v q \<Rightarrow>
              (case expr_push op v sval sop of
                 None \<Rightarrow> Some (expr_done l (Some q) sval sop st1)
               | Some (sval1, sop1) \<Rightarrow> expr_loop l m u pc q sval1 sop1 st1))"
  by (subst expr_loop.simps) (simp add: expr_next_def expr_def Let_def)

lemma expr_loop_item:
  assumes "expr_next l m u pc p st = Some (Ret (Itm op v q) st1)"
  shows "expr_loop l m u pc p sval sop st =
           (case expr_push op v sval sop of
              None \<Rightarrow> Some (expr_done l (Some q) sval sop st1)
            | Some (sval1, sop1) \<Rightarrow> expr_loop l m u pc q sval1 sop1 st1)"
  by (subst expr_loop_next) (simp add: assms then_do_simps)

lemma expr_loop_break:
  assumes "expr_next l m u pc p st = Some (Ret (Brk q) st1)"
  shows "expr_loop l m u pc p sval sop st = Some (expr_done l q sval sop st1)"
  by (subst expr_loop_next) (simp add: assms then_do_simps)

lemma read_items_ConsD:
  assumes "read_items l m u pc p st ((op, v) # its) = Some (q, st')"
  shows "\<exists>r st1. expr_next l m u pc p st = Some (Ret (Itm op v r) st1)
           \<and> read_items l m u pc r st1 its = Some (q, st')"
  using assms
  by (auto split: option.splits outcome.splits item.splits if_splits)

lemma push_value: "length sval = length sop \<Longrightarrow> length sval < 8 \<Longrightarrow> expr_push 0 v sval sop = Some (v # sval, sop)"
  by (simp add: expr_push_def expr_max_def)

lemma push_value_full: "length sval = length sop \<Longrightarrow> length sval = 8 \<Longrightarrow> expr_push 0 v sval sop = None"
  by (simp add: expr_push_def expr_max_def)

lemma push_operator: "op \<noteq> 0 \<Longrightarrow> length sval = Suc (length sop) \<Longrightarrow> length sop < 8 \<Longrightarrow> expr_push op v sval sop = Some (sval, op # sop)"
  by (simp add: expr_push_def expr_max_def)

lemma loop_weave:
  assumes "read_items l m u pc p st (weave vs ops) = Some (q, st')"
    and "length ops + 1 = length vs" and "0 \<notin> set ops" and "length sval = length sop"
  shows "(length sval + length vs \<le> 8 \<longrightarrow>
            expr_loop l m u pc p sval sop st = expr_loop l m u pc q (rev vs @ sval) (rev ops @ sop) st')
       \<and> (length sval + length vs = 9 \<longrightarrow>
            expr_loop l m u pc p sval sop st = Some (expr_done l (Some q) (rev (butlast vs) @ sval) (rev ops @ sop) st'))"
  using assms
proof (induction vs ops arbitrary: p st sval sop rule: weave.induct)
  case (1 ops)
  then show ?case by simp
next
  case (2 v vs)
  then have vs: "vs = []" by simp
  from 2(1) have "read_items l m u pc p st ((0, v) # []) = Some (q, st')" by (simp only: weave.simps)
  from read_items_ConsD[OF this]
  obtain r st1 where n: "expr_next l m u pc p st = Some (Ret (Itm 0 v r) st1)"
    and r: "read_items l m u pc r st1 [] = Some (q, st')"
    by blast
  from r have [simp]: "r = q" "st1 = st'" by simp_all
  show ?case using 2(4) n
    by (auto simp add: vs expr_loop_item push_value push_value_full)
next
  case (3 v vs op ops)
  from 3(2) have "read_items l m u pc p st ((0, v) # (op, 0) # weave vs ops) = Some (q, st')"
    by (simp only: weave.simps)
  from read_items_ConsD[OF this]
  obtain r st1 where n1: "expr_next l m u pc p st = Some (Ret (Itm 0 v r) st1)"
    and r1: "read_items l m u pc r st1 ((op, 0) # weave vs ops) = Some (q, st')"
    by blast
  from read_items_ConsD[OF r1]
  obtain r2 st2 where n2: "expr_next l m u pc r st1 = Some (Ret (Itm op 0 r2) st2)"
    and r2: "read_items l m u pc r2 st2 (weave vs ops) = Some (q, st')"
    by blast
  from 3(3) have len: "length ops + 1 = length vs" by simp
  then have vs_ne: "vs \<noteq> []" by auto
  from 3(4) have op: "op \<noteq> 0" and ops: "0 \<notin> set ops" by auto
  have ih: "(length (v # sval) + length vs \<le> 8 \<longrightarrow>
            expr_loop l m u pc r2 (v # sval) (op # sop) st2 = expr_loop l m u pc q (rev vs @ v # sval) (rev ops @ op # sop) st')
       \<and> (length (v # sval) + length vs = 9 \<longrightarrow>
            expr_loop l m u pc r2 (v # sval) (op # sop) st2 = Some (expr_done l (Some q) (rev (butlast vs) @ v # sval) (rev ops @ op # sop) st'))"
    using "3.IH"[OF r2 len ops, of "v # sval" "op # sop"] 3(5) by simp
  have small: "length sval + length (v # vs) \<le> 9 \<Longrightarrow> length sval < 8"
    using vs_ne by (cases vs) auto
  have step: "length sval < 8 \<Longrightarrow> expr_loop l m u pc p sval sop st = expr_loop l m u pc r2 (v # sval) (op # sop) st2"
    using 3(5) op by (simp add: expr_loop_item[OF n1] expr_loop_item[OF n2] push_value push_operator)
  show ?case using ih step small vs_ne by (auto simp add: butlast_append)
qed

lemmas read_simps = read_items.simps weave.simps expr_next_def lex_defs expr_defs then_do_simps and_then_simps
  Let_def loop_simps

text \<open>The operators of the reduction, in 32-bit arithmetic.\<close>

lemma binop_operators:
  "binop (ucast (CH CHR ''+'')) x y = Some (x + y)"
  "binop (ucast (CH CHR ''-'')) x y = Some (x - y)"
  "binop (ucast (CH CHR ''*'')) x y = Some (x * y)"
  "y \<noteq> 0 \<Longrightarrow> binop (ucast (CH CHR ''/'')) x y = Some (x div y)"
  "y \<noteq> 0 \<Longrightarrow> binop (ucast (CH CHR ''%'')) x y = Some (x mod y)"
  "binop (ucast (CH CHR ''&'')) x y = Some (x AND y)"
  "binop (ucast (CH CHR ''|'')) x y = Some (x OR y)"
  "binop (ucast (CH CHR ''/'')) x 0 = None"
  "binop (ucast (CH CHR ''%'')) x 0 = None"
  by (simp_all add: binop_def)

text \<open>
  A minus sign directly before a digit is read as the sign of a decimal literal, also
  behind an operand: in \<open>10-3-2\<close> the loop reads 10, then the literal -3, and stops there.
\<close>

lemma minus_sign_example:
  "expr 1 None False 0 (ascii ''10-3-2'') init_state = Some (Ret (Some (ascii ''-2'', 10)) init_state)"
  by (simp add: read_simps cong: then_do_cong and_then_cong)

text \<open>
  C1 (as amended): when the loop reads the five elements \<open>a op1 b op2 c\<close> (three operands
  of values \<open>a\<close>, \<open>b\<close>, \<open>c\<close> and two operators) and then stops at something that is not part
  of an expression, and no division or modulo by zero occurs, the operators are applied
  from right to left: the value is \<open>a op1 (b op2 c)\<close> in 32-bit arithmetic, with no
  precedence among the operators.
\<close>

theorem expr_right_to_left:
  assumes "read_items l m u pc p st (weave [a, b, c] [op1, op2]) = Some (q, st1)"
    and "op1 \<noteq> 0" and "op2 \<noteq> 0"
    and "expr_next l m u pc q st1 = Some (Ret (Brk (Some r)) st2)"
    and "binop op2 b c = Some bc" and "binop op1 a bc = Some res"
  shows "expr l m u pc p st = Some (Ret (Some (r, res)) st2)"
proof -
  have "expr_loop l m u pc p [] [] st = expr_loop l m u pc q (rev [a, b, c] @ []) (rev [op1, op2] @ []) st1"
    using loop_weave[OF assms(1), of "[]" "[]"] assms(2,3) by simp
  also have "\<dots> = Some (expr_done l (Some r) [c, b, a] [op2, op1] st2)"
    by (simp add: expr_loop_break[OF assms(4)])
  also have "\<dots> = Some (Ret (Some (r, res)) st2)"
    by (simp add: expr_done_def assms(5,6))
  finally show ?thesis by (simp add: expr_def)
qed

text \<open>The expression \<open>10 - 3 - 2\<close> is read so, and its value is \<open>10 - (3 - 2) = 9\<close>.\<close>

theorem expr_right_to_left_witness:
  "read_items 1 None False 0 (ascii ''10 - 3 - 2'') init_state (weave [10, 3, 2] [45, 45]) = Some ([], init_state)
   \<and> (45 :: u32) \<noteq> 0
   \<and> expr_next 1 None False 0 [] init_state = Some (Ret (Brk (Some [])) init_state)
   \<and> binop 45 3 2 = Some 1 \<and> binop 45 10 1 = Some 9
   \<and> expr 1 None False 0 (ascii ''10 - 3 - 2'') init_state = Some (Ret (Some ([], 9)) init_state)"
proof -
  have h1: "read_items 1 None False 0 (ascii ''10 - 3 - 2'') init_state (weave [10, 3, 2] [45, 45]) = Some ([], init_state)"
    by (simp add: read_simps)
  have h2: "(45 :: u32) \<noteq> 0" by simp
  have h3: "expr_next 1 None False 0 [] init_state = Some (Ret (Brk (Some [])) init_state)"
    by (simp add: read_simps)
  have h4: "binop 45 3 2 = Some 1" by (simp add: binop_def)
  have h5: "binop 45 10 1 = Some 9" by (simp add: binop_def)
  show ?thesis using expr_right_to_left[OF h1 h2 h2 h3 h4 h5] h1 h2 h3 h4 h5 by simp
qed

text \<open>C1 as stated fails: applied from left to right, \<open>10 - 3 - 2\<close> would be 5.\<close>

theorem expr_left_to_right_counterexample:
  "expr 1 None False 0 (ascii ''10 - 3 - 2'') init_state = Some (Ret (Some ([], 9)) init_state)
   \<and> (10 - 3) - 2 \<noteq> (9 :: u32)"
  by (simp add: read_simps cong: then_do_cong and_then_cong)

text \<open>
  C10 as stated fails: \<open>1 / 0\<close> has two operands and is well-formed, and its reduction
  divides by zero, which is undefined in C.
\<close>

theorem expr_division_by_zero_counterexample:
  "expr 1 None False 0 (ascii ''1 / 0'') init_state = Some Undefined"
  by (simp add: read_simps cong: then_do_cong and_then_cong)

text \<open>
  C10 (as amended): at each nesting level the loop holds at most 8 operand values and at
  most 8 pending operators.  An expression \<open>v1 op1 ... vn\<close> with at most 8 operands at one
  level, after which the loop stops, and whose reduction does not divide by zero,
  is evaluated: \<open>expr\<close> returns a pointer and the value.  When 9 operands and 8 operators
  are read at one level, \<open>expr\<close> raises \<open>expr syntax\<close> and returns the null pointer
  (or the process exits, this being its 8th error).
\<close>

theorem expr_capacity:
  "(expr_push op v sval sop = Some (sval', sop') \<longrightarrow> length sval' \<le> 8 \<and> length sop' \<le> 8)
   \<and> (read_items l m u pc p st (weave vs ops) = Some (q, st1) \<and> length vs \<le> 8
        \<and> length ops + 1 = length vs \<and> 0 \<notin> set ops
        \<and> expr_next l m u pc q st1 = Some (Ret (Brk (Some r)) st2)
        \<and> reduce (rev vs) (rev ops) = Some res
       \<longrightarrow> expr l m u pc p st = Some (Ret (Some (r, last res)) st2))
   \<and> (read_items l' m' u' pc' p' st' (weave vs' ops') = Some (q', st1') \<and> length vs' = 9
        \<and> length ops' = 8 \<and> 0 \<notin> set ops'
       \<longrightarrow> (let st2' = st1'\<lparr>diags := diags st1' @ [(l', ''expr syntax'')], errcount := errcount st1' + 1\<rparr>
            in expr l' m' u' pc' p' st' = Some (if errcount st2' \<ge> MAX_ERRORS then Exit st2' else Ret None st2')))"
proof (intro conjI impI)
  assume "expr_push op v sval sop = Some (sval', sop')"
  then show "length sval' \<le> 8" and "length sop' \<le> 8"
    by (auto simp add: expr_push_def expr_max_def Let_def split: if_splits)
next
  assume h: "read_items l m u pc p st (weave vs ops) = Some (q, st1) \<and> length vs \<le> 8
        \<and> length ops + 1 = length vs \<and> 0 \<notin> set ops
        \<and> expr_next l m u pc q st1 = Some (Ret (Brk (Some r)) st2)
        \<and> reduce (rev vs) (rev ops) = Some res"
  then have "expr_loop l m u pc p [] [] st = expr_loop l m u pc q (rev vs @ []) (rev ops @ []) st1"
    using loop_weave[of l m u pc p st vs ops q st1 "[]" "[]"] by simp
  also have "\<dots> = Some (expr_done l (Some r) (rev vs) (rev ops) st2)"
    using h by (simp add: expr_loop_break)
  also have "\<dots> = Some (Ret (Some (r, last res)) st2)"
    using h by (simp add: expr_done_def)
  finally show "expr l m u pc p st = Some (Ret (Some (r, last res)) st2)"
    by (simp add: expr_def)
next
  assume h: "read_items l' m' u' pc' p' st' (weave vs' ops') = Some (q', st1') \<and> length vs' = 9
        \<and> length ops' = 8 \<and> 0 \<notin> set ops'"
  then have "expr_loop l' m' u' pc' p' [] [] st' = Some (expr_done l' (Some q') (rev (butlast vs') @ []) (rev ops' @ []) st1')"
    using loop_weave[of l' m' u' pc' p' st' vs' ops' q' st1' "[]" "[]"] by simp
  then show "let st2' = st1'\<lparr>diags := diags st1' @ [(l', ''expr syntax'')], errcount := errcount st1' + 1\<rparr>
            in expr l' m' u' pc' p' st' = Some (if errcount st2' \<ge> MAX_ERRORS then Exit st2' else Ret None st2')"
    using h by (simp add: expr_def expr_done_def error_def Let_def and_then_simps)
qed


text \<open>Eight operands are evaluated, nine are rejected.\<close>

theorem expr_capacity_witness:
  "expr_push 0 5 [] [] = Some ([5], [])
   \<and> read_items 1 None False 0 (ascii ''1+2+3+4+5+6+7+8'') init_state
         (weave [1, 2, 3, 4, 5, 6, 7, 8] [43, 43, 43, 43, 43, 43, 43]) = Some ([], init_state)
   \<and> expr_next 1 None False 0 [] init_state = Some (Ret (Brk (Some [])) init_state)
   \<and> reduce (rev [1, 2, 3, 4, 5, 6, 7, 8]) (rev [43, 43, 43, 43, 43, 43, 43]) = Some [36]
   \<and> expr 1 None False 0 (ascii ''1+2+3+4+5+6+7+8'') init_state = Some (Ret (Some ([], 36)) init_state)
   \<and> read_items 1 None False 0 (ascii ''1+2+3+4+5+6+7+8+9'') init_state
         (weave [1, 2, 3, 4, 5, 6, 7, 8, 9] [43, 43, 43, 43, 43, 43, 43, 43]) = Some ([], init_state)
   \<and> expr 1 None False 0 (ascii ''1+2+3+4+5+6+7+8+9'') init_state
       = Some (Ret None (init_state\<lparr>diags := [(1, ''expr syntax'')], errcount := 1\<rparr>))"
proof -
  have h1: "expr_push 0 5 [] [] = Some ([5], [])"
    by (simp add: expr_push_def expr_max_def)
  have h2: "read_items 1 None False 0 (ascii ''1+2+3+4+5+6+7+8'') init_state
         (weave [1, 2, 3, 4, 5, 6, 7, 8] [43, 43, 43, 43, 43, 43, 43]) = Some ([], init_state)"
    by (simp add: read_simps)
  have h3: "expr_next 1 None False 0 [] init_state = Some (Ret (Brk (Some [])) init_state)"
    by (simp add: read_simps)
  have h4: "reduce (rev [1, 2, 3, 4, 5, 6, 7, 8]) (rev [43, 43, 43, 43, 43, 43, 43]) = Some [36]"
    by (simp add: binop_def)
  have h5: "read_items 1 None False 0 (ascii ''1+2+3+4+5+6+7+8+9'') init_state
         (weave [1, 2, 3, 4, 5, 6, 7, 8, 9] [43, 43, 43, 43, 43, 43, 43, 43]) = Some ([], init_state)"
    by (simp add: read_simps)
  have d: "diags init_state = []" "errcount init_state = 0"
    by (simp_all add: init_state_def)
  note T = expr_capacity[where op=0 and v=5 and sval="[]" and sop="[]" and sval'="[5]" and sop'="[]"
        and l=1 and m=None and u=False and pc=0 and p="ascii ''1+2+3+4+5+6+7+8''" and st=init_state
        and vs="[1, 2, 3, 4, 5, 6, 7, 8]" and ops="[43, 43, 43, 43, 43, 43, 43]" and q="[]"
        and ?st1.0=init_state and r="[]" and ?st2.0=init_state and res="[36]"
        and l'=1 and m'=None and u'=False and pc'=0 and p'="ascii ''1+2+3+4+5+6+7+8+9''"
        and st'=init_state and vs'="[1, 2, 3, 4, 5, 6, 7, 8, 9]"
        and ops'="[43, 43, 43, 43, 43, 43, 43, 43]" and q'="[]" and st1'=init_state]
  have c2: "expr 1 None False 0 (ascii ''1+2+3+4+5+6+7+8'') init_state = Some (Ret (Some ([], last [36])) init_state)"
    by (rule T[THEN conjunct2, THEN conjunct1, THEN mp]) (intro conjI h2 h3 h4; simp)
  have c3: "let st2' = init_state\<lparr>diags := diags init_state @ [(1, ''expr syntax'')], errcount := errcount init_state + 1\<rparr>
            in expr 1 None False 0 (ascii ''1+2+3+4+5+6+7+8+9'') init_state
               = Some (if errcount st2' \<ge> MAX_ERRORS then Exit st2' else Ret None st2')"
    by (rule T[THEN conjunct2, THEN conjunct2, THEN mp]) (intro conjI h5; simp)
  from c3 have c3': "expr 1 None False 0 (ascii ''1+2+3+4+5+6+7+8+9'') init_state
       = Some (Ret None (init_state\<lparr>diags := [(1, ''expr syntax'')], errcount := 1\<rparr>))"
    by (simp add: d MAX_ERRORS_def Let_def numeral_le_one_u32)
  from c2 have c2': "expr 1 None False 0 (ascii ''1+2+3+4+5+6+7+8'') init_state = Some (Ret (Some ([], 36)) init_state)"
    by simp
  show ?thesis
    by (intro conjI h1 h2 h3 h4 h5 c2' c3')
qed

text \<open>
  C3 (as amended): when the label branch of \<open>expr\<close> reads a name \<open>n\<close> that \<open>find_label\<close> does
  not find, the value of the operand is 0; with \<open>allow_undef\<close> false the diagnostic
  \<open>undefined label in expr\<close> is raised (and the process exits if it is its 8th error);
  with \<open>allow_undef\<close> true nothing is raised and the state stays as it is.  The evaluator
  has no access to the "more work" flag.
\<close>

theorem undefined_label_value:
  assumes "p1 = (if peek p = CH CHR '':'' then tl p else p)"
    and "local = (peek p1 = CH CHR ''.'')"
    and "scan_upper is_name_char (if local then tl p1 else p1) = (n, q)"
    and "find_label st (if local then mainlbl else None) n = None"
    and "\<not> (local \<and> mainlbl = None)"
  shows "expr_label lineno mainlbl allow_undef p st =
           (if allow_undef then Ret (0, q) st
            else (let st' = st\<lparr>diags := diags st @ [(lineno, ''undefined label in expr'')],
                               errcount := errcount st + 1\<rparr>
                  in if errcount st' \<ge> MAX_ERRORS then Exit st' else Ret (0, q) st'))"
proof -
  have "expr_label lineno mainlbl allow_undef p st =
          (case find_label st (if local then mainlbl else None) n of
             None \<Rightarrow> (if \<not> allow_undef
                      then and_then (error lineno ''undefined label in expr'' st) (\<lambda>_. Ret (0, q))
                      else Ret (0, q) st)
           | Some l \<Rightarrow> Ret (value (tlabel st l), q)
                (st\<lparr>tlabel := (tlabel st)(l := (tlabel st l)\<lparr>flags := flags (tlabel st l) OR LABEL_USED\<rparr>)\<rparr>))"
    unfolding expr_label_def Let_def assms(1)[symmetric]
    unfolding assms(2)[symmetric]
    using assms(3,5) by (cases mainlbl; cases local) (simp_all add: and_then_simps)
  then show ?thesis
    by (simp add: assms(4) error_def Let_def and_then_simps)
qed

text \<open>The operand \<open>F\<close> with an empty label table.\<close>

theorem undefined_label_value_witness:
  "ascii ''F'' = (if peek (ascii ''F'') = CH CHR '':'' then tl (ascii ''F'') else ascii ''F'')
   \<and> False = (peek (ascii ''F'') = CH CHR ''.'')
   \<and> scan_upper is_name_char (if False then tl (ascii ''F'') else ascii ''F'') = (ascii ''F'', [])
   \<and> find_label init_state (if False then None else None) (ascii ''F'') = None
   \<and> expr_label 1 None True (ascii ''F'') init_state = Ret (0, []) init_state
   \<and> expr_label 1 None False (ascii ''F'') init_state
       = Ret (0, []) (init_state\<lparr>diags := [(1, ''undefined label in expr'')], errcount := 1\<rparr>)"
proof -
  have h1: "ascii ''F'' = (if peek (ascii ''F'') = CH CHR '':'' then tl (ascii ''F'') else ascii ''F'')"
    by (simp add: lex_defs)
  have h2: "False = (peek (ascii ''F'') = CH CHR ''.'')"
    by (simp add: lex_defs)
  have h3: "scan_upper is_name_char (if False then tl (ascii ''F'') else ascii ''F'') = (ascii ''F'', [])"
    by (simp add: lex_defs)
  have h4: "find_label init_state (if False then None else None) (ascii ''F'') = None"
    by (simp add: lex_defs find_label_def init_state_def MAX_CHAR_LABEL_def)
  have h5: "\<not> (False \<and> (None :: nat option) = None)"
    by simp
  have d: "diags init_state = []" "errcount init_state = 0"
    by (simp_all add: init_state_def)
  have a: "expr_label 1 None True (ascii ''F'') init_state = Ret (0, []) init_state"
    using undefined_label_value[OF h1 h2 h3 h4 h5, of 1 True] by (simp only: if_True)
  have b: "expr_label 1 None False (ascii ''F'') init_state
       = Ret (0, []) (init_state\<lparr>diags := [(1, ''undefined label in expr'')], errcount := 1\<rparr>)"
    using undefined_label_value[OF h1 h2 h3 h4 h5, of 1 False]
    by (simp add: d Let_def MAX_ERRORS_def numeral_le_one_u32)
  show ?thesis by (intro conjI h1 h2 h3 h4 a b)
qed

text \<open>
  C3 as stated fails: in pass 0 the line \<open>LI R1, F\<close> evaluates the undefined label \<open>F\<close> with
  \<open>allow_undef\<close> true, and the pass ends with the flag \<open>more\<close> false.
\<close>

theorem undefined_label_more_counterexample:
  "expr 1 None True 0 (ascii ''F'' @ [10]) init_state = Some (Ret (Some ([], 0)) init_state)
   \<and> do_pass [ascii '' LI R1, F'' @ [10]] 0 False init_state = Some (Ret False init_state)"
  by (simp add: run_simps cong: then_do_cong and_then_cong)

subsection \<open>The encoder\<close>

text \<open>
  C5: the bytes of \<open>LI reg, imm\<close> (kind \<open>I\<close>, base word \<open>w\<close>), the cases tested in this order:
  \<open>imm = 0\<close> gives \<open>0x80 | reg, 0xff\<close>; \<open>imm = 1\<close> gives \<open>0x00 | reg, 0xf8\<close>; another \<open>imm\<close> in
  \<open>-32768..32767\<close> gives the 4 bytes of the \<open>A\<close> form with base word \<open>0x30f9\<close> and second
  register 0, without range diagnostic; any other \<open>imm\<close> gives 6 bytes: the high byte of
  \<open>w\<close>, the low byte of \<open>w\<close> or-ed with \<open>reg << 4\<close>, and the 4 bytes of \<open>imm\<close>, high byte first.
\<close>

theorem li_encoding:
  "encode lineno out pc CHR ''I'' w va st =
     (let r = rno (va 0); imm = val (va 1)
      in if imm = 0 then Ret [b8 (0x80 OR r), 0xff] st
         else if imm = 1 then Ret [b8 (0x00 OR r), 0xf8] st
         else if - 32768 \<le>s imm \<and> imm \<le>s 32767 then
           Ret [b8 (0x30 OR r), 0xf9, b8 (signed_drop_bit 8 imm), b8 imm] st
         else Ret [b8 (drop_bit 8 w), b8 (w OR push_bit 4 r),
                   b8 (signed_drop_bit 24 imm), b8 (signed_drop_bit 16 imm),
                   b8 (signed_drop_bit 8 imm), b8 imm] st)"
proof -
  have a: "encode lineno out pc CHR ''A'' 0x30f9 va' st =
             checked (out \<and> (32768 \<le>s val (va' 2) \<or> val (va' 2) <s - 32768)) lineno ''inmediate out of range''
               [b8 (0x30 OR rno (va' 0)), b8 (0x30f9 OR push_bit 4 (rno (va' 1))),
                b8 (signed_drop_bit 8 (val (va' 2))), b8 (val (va' 2))] st" for va'
    by (subst encode.simps) simp
  have inr: "- 32768 \<le>s imm \<Longrightarrow> imm \<le>s 32767 \<Longrightarrow> \<not> (32768 \<le>s imm \<or> imm <s - 32768)" for imm :: u32
    by (simp add: word_sle_eq word_sless_alt)
  show ?thesis
    by (subst encode.simps) (simp add: Let_def a set_rno_def set_val_def checked_def inr b8_def)
qed

text \<open>The boundary cases of the specification, for \<open>R3\<close> and the base word of the \<open>LI\<close> row.\<close>

lemma li_examples:
  "encode 1 True 0 CHR ''I'' 0x0f0c (va_init(0 := \<lparr>k = R, rno = 3, val = 0\<rparr>, 1 := \<lparr>k = N, rno = 0, val = 0\<rparr>)) st = Ret [0x83, 0xff] st"
  "encode 1 True 0 CHR ''I'' 0x0f0c (va_init(0 := \<lparr>k = R, rno = 3, val = 0\<rparr>, 1 := \<lparr>k = N, rno = 0, val = 1\<rparr>)) st = Ret [0x03, 0xf8] st"
  "encode 1 True 0 CHR ''I'' 0x0f0c (va_init(0 := \<lparr>k = R, rno = 3, val = 0\<rparr>, 1 := \<lparr>k = N, rno = 0, val = 2\<rparr>)) st = Ret [0x33, 0xf9, 0x00, 0x02] st"
  "encode 1 True 0 CHR ''I'' 0x0f0c (va_init(0 := \<lparr>k = R, rno = 3, val = 0\<rparr>, 1 := \<lparr>k = N, rno = 0, val = - 32768\<rparr>)) st = Ret [0x33, 0xf9, 0x80, 0x00] st"
  "encode 1 True 0 CHR ''I'' 0x0f0c (va_init(0 := \<lparr>k = R, rno = 3, val = 0\<rparr>, 1 := \<lparr>k = N, rno = 0, val = 32768\<rparr>)) st = Ret [0x0f, 0x3c, 0x00, 0x00, 0x80, 0x00] st"
  "encode 1 True 0 CHR ''I'' 0x0f0c (va_init(0 := \<lparr>k = R, rno = 3, val = 0\<rparr>, 1 := \<lparr>k = N, rno = 0, val = - 32769\<rparr>)) st = Ret [0x0f, 0x3c, 0xff, 0xff, 0x7f, 0xff] st"
  "encode 1 True 0 CHR ''I'' 0x0f0c (va_init(0 := \<lparr>k = R, rno = 3, val = 0\<rparr>, 1 := \<lparr>k = N, rno = 0, val = 0x100000\<rparr>)) st = Ret [0x0f, 0x3c, 0x00, 0x10, 0x00, 0x00] st"
  by (simp_all add: encode.simps Let_def b8_def word_eval set_rno_def set_val_def checked_def)

text \<open>The third case is the \<open>A\<close> form of the registers \<open>reg\<close>, 0 and the immediate, base word \<open>0x30f9\<close>.\<close>

lemma li_a_form:
  assumes "val (va 1) \<noteq> 0" and "val (va 1) \<noteq> 1"
    and "- 32768 \<le>s val (va 1)" and "val (va 1) \<le>s 32767"
  shows "encode lineno out pc CHR ''I'' w va st =
           encode lineno out pc CHR ''A'' 0x30f9 (set_val (set_rno va 1 0) 2 (val (va 1))) st"
  using assms by (subst encode.simps) (simp add: Let_def set_rno_def set_val_def)

text \<open>
  C6 (as amended): a branch (kind \<open>B\<close>) computes the half-word offset
  \<open>off = (target - (pc + 4)) / 2\<close>.  On the final pass (\<open>out\<close>) an offset in \<open>-32768..32767\<close>
  is encoded without diagnostic, and an offset above 32767 or below -32768 raises
  \<open>branch out of range\<close>; on the other passes no diagnostic is raised.
\<close>

theorem branch_range:
  "encode lineno out pc CHR ''B'' w va st =
     (let off = sdiv32 (val (va 0) - (pc + 4)) 2;
          code = [b8 (drop_bit 8 w), b8 w, b8 (signed_drop_bit 8 off), b8 off]
      in if out \<and> (32767 < sint off \<or> sint off < - 32768)
         then (let st' = st\<lparr>diags := diags st @ [(lineno, ''branch out of range'')],
                            errcount := errcount st + 1\<rparr>
               in if errcount st' \<ge> MAX_ERRORS then Exit st' else Ret code st')
         else Ret code st)"
proof -
  have r: "(32768 \<le>s off \<or> off <s - 32768) = (32767 < sint off \<or> sint off < - 32768)" for off :: u32
    by (auto simp add: word_sle_eq word_sless_alt)
  have e: "encode lineno out pc CHR ''B'' w va st =
             (let off = sdiv32 (val (va 0) - (pc + 4)) 2
              in checked (out \<and> (32768 \<le>s off \<or> off <s - 32768)) lineno ''branch out of range''
                   [b8 (drop_bit 8 w), b8 w, b8 (signed_drop_bit 8 off), b8 off] st)"
    by (subst encode.simps) simp
  have g: "checked bad lineno ''branch out of range'' code st =
             (if bad
              then (if errcount (st\<lparr>diags := diags st @ [(lineno, ''branch out of range'')],
                                       errcount := errcount st + 1\<rparr>) \<ge> MAX_ERRORS
                    then Exit (st\<lparr>diags := diags st @ [(lineno, ''branch out of range'')],
                                  errcount := errcount st + 1\<rparr>)
                    else Ret code (st\<lparr>diags := diags st @ [(lineno, ''branch out of range'')],
                                      errcount := errcount st + 1\<rparr>))
              else Ret code st)" for bad code
    by (cases bad) (simp_all add: checked_def error_def Let_def and_then_simps)
  show ?thesis
    unfolding e Let_def r g by (rule refl)
qed

text \<open>
  C6 as stated fails: the offset -32768 (a branch at \<open>0xFFFC\<close> to address 0) is encoded on
  the final pass without diagnostic.
\<close>

theorem branch_range_counterexample:
  "sint (sdiv32 (0 - (0xFFFC + 4)) 2) = - 32768
   \<and> encode 1 True 0xFFFC CHR ''B'' 0x2ff0 (va_init(0 := \<lparr>k = N, rno = 0, val = 0\<rparr>)) init_state
       = Ret [0x2f, 0xf0, 0x80, 0x00] init_state"
  by (subst encode.simps) (simp add: Let_def checked_def sdiv32_def b8_def word_eval)

text \<open>A program with that branch: it is assembled without diagnostic, exit status 0.\<close>

lemma branch_program_example:
  "(case main [ascii '' .ORG $FFFC'' @ [10] @ ascii '' BRA 0'' @ [10]] of
      Some (Ret s st) \<Rightarrow>
        s = 0 \<and> diags st = []
        \<and> ofile st = ascii '':04FFFC002FF0800062'' @ [10] @ ascii '':00000001FF'' @ [10]
    | _ \<Rightarrow> False)"
  by (simp add: run_simps cong: then_do_cong and_then_cong)

text \<open>The offsets 32767, 32768 and -32769 on the final pass, and -32769 on another pass.\<close>

lemma branch_examples:
  "encode 1 True 0 CHR ''B'' 0x2ff0 (va_init(0 := \<lparr>k = N, rno = 0, val = 65538\<rparr>)) init_state
       = Ret [0x2f, 0xf0, 0x7f, 0xff] init_state"
  "encode 1 True 0 CHR ''B'' 0x2ff0 (va_init(0 := \<lparr>k = N, rno = 0, val = 65540\<rparr>)) init_state
       = Ret [0x2f, 0xf0, 0x80, 0x00] (init_state\<lparr>diags := [(1, ''branch out of range'')], errcount := 1\<rparr>)"
  "encode 1 True 0xFFFE CHR ''B'' 0x2ff0 (va_init(0 := \<lparr>k = N, rno = 0, val = 0\<rparr>)) init_state
       = Ret [0x2f, 0xf0, 0x7f, 0xff] (init_state\<lparr>diags := [(1, ''branch out of range'')], errcount := 1\<rparr>)"
  "encode 1 False 0xFFFE CHR ''B'' 0x2ff0 (va_init(0 := \<lparr>k = N, rno = 0, val = 0\<rparr>)) init_state
       = Ret [0x2f, 0xf0, 0x7f, 0xff] init_state"
  by (simp_all add: encode.simps Let_def sdiv32_def b8_def word_eval init_state_def MAX_ERRORS_def
        checked_def error_def and_then_simps)

text \<open>The conditional branches put their registers into the base word and go on as \<open>B\<close>.\<close>

lemma conditional_branch:
  "encode lineno out pc CHR ''b'' w va st =
     encode lineno out pc CHR ''B'' (w OR (push_bit 8 (rno (va 0)) OR push_bit 4 (rno (va 1))))
       (set_val va 0 (val (va 2))) st"
  "encode lineno out pc CHR ''!'' w va st =
     encode lineno out pc CHR ''B'' (w OR push_bit 8 (rno (va 0))) (set_val va 0 (val (va 1))) st"
  by (subst encode.simps, simp add: Let_def)+

subsection \<open>The directive .WORD\<close>

lemma big_endian_16:
  "unat (b8 (drop_bit 8 v)) * 256 + unat (b8 v) = unat v mod 65536"
proof -
  have a: "unat (b8 v) = unat v mod 256"
    by (simp add: b8_def unat_ucast_u8)
  have b: "unat (b8 (drop_bit 8 v)) = unat v div 256 mod 256"
    by (simp add: b8_def unat_ucast_u8 drop_bit_eq_div unat_div)
  have "unat v mod (256 * 256) = 256 * (unat v div 256 mod 256) + unat v mod 256"
    by (rule mod_mult2_eq)
  then show ?thesis by (simp add: a b)
qed

text \<open>
  C8: one turn of the loop of \<open>.WORD\<close> on an expression of value \<open>v\<close>: the two bytes
  \<open>v >> 8\<close>, \<open>v\<close> are put into \<open>code\<close>, which are the low 16 bits of \<open>v\<close>, high byte first;
  \<open>.WORD overflow\<close> is raised exactly when the pass is the final one and the unsigned
  value is greater than 65536 (so 65536 itself passes, and a small negative value is
  reported); then the loop goes on behind a comma or ends.
\<close>

theorem word_range_check:
  assumes "expr lineno mainlbl (\<not> out) pc p st = Some (Ret (Some (q, v)) st1)"
  shows "word_loop lineno mainlbl out pc code p st =
           (let code1 = code @ [b8 (drop_bit 8 v), b8 v];
                st2 = (if out \<and> 65536 < unat v
                       then st1\<lparr>diags := diags st1 @ [(lineno, ''.WORD overflow'')],
                                errcount := errcount st1 + 1\<rparr>
                       else st1)
            in if (out \<and> 65536 < unat v) \<and> errcount st2 \<ge> MAX_ERRORS then Some (Exit st2)
               else if peek q \<noteq> CH CHR '','' then Some (Ret (Some (code1, q)) st2)
               else word_loop lineno mainlbl out pc code1 (tl q) st2)
         \<and> unat (b8 (drop_bit 8 v)) * 256 + unat (b8 v) = unat v mod 65536"
proof -
  define bad where "bad = (out \<and> 65536 < unat v)"
  have c: "(out \<and> 65536 < v) = bad"
    by (simp add: word_less_nat_alt bad_def)
  have step: "word_loop lineno mainlbl out pc code p st =
          then_do (Some (if bad then error lineno ''.WORD overflow'' st1 else Ret () st1))
            (\<lambda>_ st2. if peek q \<noteq> CH CHR '','' then Some (Ret (Some (code @ [b8 (drop_bit 8 v), b8 v], q)) st2)
                      else word_loop lineno mainlbl out pc (code @ [b8 (drop_bit 8 v), b8 v]) (tl q) st2)"
    by (subst word_loop.simps) (simp add: assms then_do_simps c)
  have "word_loop lineno mainlbl out pc code p st =
           (let code1 = code @ [b8 (drop_bit 8 v), b8 v];
                st2 = (if bad
                       then st1\<lparr>diags := diags st1 @ [(lineno, ''.WORD overflow'')],
                                errcount := errcount st1 + 1\<rparr>
                       else st1)
            in if bad \<and> errcount st2 \<ge> MAX_ERRORS then Some (Exit st2)
               else if peek q \<noteq> CH CHR '','' then Some (Ret (Some (code1, q)) st2)
               else word_loop lineno mainlbl out pc code1 (tl q) st2)"
    unfolding step by (cases bad) (simp_all add: error_def Let_def then_do_simps)
  then show ?thesis unfolding bad_def using big_endian_16 by (rule conjI)
qed

text \<open>The value 65536 on the final pass: no diagnostic, the bytes 00 00.\<close>

theorem word_range_check_witness:
  "expr 1 None (\<not> True) 0 (ascii ''65536'') init_state = Some (Ret (Some ([], 65536)) init_state)
   \<and> word_loop 1 None True 0 [] (ascii ''65536'') init_state = Some (Ret (Some ([0, 0], [])) init_state)"
proof -
  have h: "expr 1 None (\<not> True) 0 (ascii ''65536'') init_state = Some (Ret (Some ([], 65536)) init_state)"
    by (simp add: run_simps cong: then_do_cong and_then_cong)
  have "word_loop 1 None True 0 [] (ascii ''65536'') init_state = Some (Ret (Some ([0, 0], [])) init_state)"
    using word_range_check[OF h, of "[]", THEN conjunct1]
    by (simp add: Let_def b8_def peek_def)
  with h show ?thesis by (rule conjI)
qed

text \<open>65537 and \<open>0 - 2\<close> on the final pass, 65537 on another pass.\<close>

lemma word_examples:
  "word_loop 1 None True 0 [] (ascii ''65537'') init_state
     = Some (Ret (Some ([0, 1], [])) (init_state\<lparr>diags := [(1, ''.WORD overflow'')], errcount := 1\<rparr>))"
  "word_loop 1 None True 0 [] (ascii ''0 - 2'') init_state
     = Some (Ret (Some ([0xff, 0xfe], [])) (init_state\<lparr>diags := [(1, ''.WORD overflow'')], errcount := 1\<rparr>))"
  "word_loop 1 None False 0 [] (ascii ''65537'') init_state
     = Some (Ret (Some ([0, 1], [])) init_state)"
  by (simp_all add: run_simps cong: then_do_cong and_then_cong)

subsection \<open>Labels across the passes\<close>






text \<open>
  C4 (as amended): for the program \<open>A: ADD R1, R1, 1\<close>; \<open>B: BNE R1, R0, A\<close> pass 0 sets the
  flag \<open>more\<close>, pass 1 does not, and on the final pass the first line emits the 4 bytes
  31 14 00 01 of the \<open>A\<close> form at address 0 and the second line, a \<open>b\<close> to \<open>B\<close> rewrite at
  \<open>pc = 4\<close> with target 0 and offset -4, emits the 4 bytes 21 01 FF FC.
\<close>

theorem two_line_program_final_pass:
  "(case do_pass [ascii ''A: ADD R1, R1, 1'' @ [10] @ ascii ''B: BNE R1, R0, A'' @ [10]] 0 False init_state of
      Some (Ret more0 st0) \<Rightarrow>
        (case do_pass [ascii ''A: ADD R1, R1, 1'' @ [10] @ ascii ''B: BNE R1, R0, A'' @ [10]] 1 False st0 of
           Some (Ret more1 st1) \<Rightarrow>
             more0 \<and> \<not> more1 \<and>
             (case asm_line 2 True 1 (ascii ''A: ADD R1, R1, 1'' @ [10]) 0 None False (st1\<lparr>ofile := []\<rparr>) of
                Some (Ret (pc2, mainlbl2, more2) st2) \<Rightarrow>
                  pc2 = 4 \<and> line st2 = [0x31, 0x14, 0x00, 0x01] \<and>
                  (case asm_line 2 True 2 (ascii ''B: BNE R1, R0, A'' @ [10]) pc2 mainlbl2 more2 st2 of
                     Some (Ret (pc3, mainlbl3, more3) st3) \<Rightarrow>
                       pc3 = 8 \<and> \<not> more3 \<and> diags st3 = []
                       \<and> line st3 = [0x31, 0x14, 0x00, 0x01] @ [0x21, 0x01, 0xFF, 0xFC]
                   | _ \<Rightarrow> False)
              | _ \<Rightarrow> False)
         | _ \<Rightarrow> False)
    | _ \<Rightarrow> False)"
  by (simp add: run_simps cong: then_do_cong and_then_cong)

text \<open>C4 as stated fails: the bytes of the second line are not 21 10 FF FC.\<close>

theorem two_line_program_counterexample:
  "(case do_pass [ascii ''A: ADD R1, R1, 1'' @ [10] @ ascii ''B: BNE R1, R0, A'' @ [10]] 0 False init_state of
      Some (Ret more0 st0) \<Rightarrow>
        (case do_pass [ascii ''A: ADD R1, R1, 1'' @ [10] @ ascii ''B: BNE R1, R0, A'' @ [10]] 1 False st0 of
           Some (Ret more1 st1) \<Rightarrow>
             (case assemble (ascii ''A: ADD R1, R1, 1'' @ [10] @ ascii ''B: BNE R1, R0, A'' @ [10]) 2 True 0 False (st1\<lparr>ofile := []\<rparr>) of
                Some (Ret r st2) \<Rightarrow>
                  drop 4 (line st2) = [0x21, 0x01, 0xFF, 0xFC] \<and> drop 4 (line st2) \<noteq> [0x21, 0x10, 0xFF, 0xFC]
              | _ \<Rightarrow> False)
         | _ \<Rightarrow> False)
    | _ \<Rightarrow> False)"
  by (simp add: run_simps cong: then_do_cong and_then_cong)

text \<open>The HEX file of that program.\<close>

lemma two_line_program_output:
  "(case main [ascii ''A: ADD R1, R1, 1'' @ [10] @ ascii ''B: BNE R1, R0, A'' @ [10]] of
      Some (Ret s st) \<Rightarrow>
        s = 0 \<and> ofile st = ascii '':08000000311400012101FFFC95'' @ [10] @ ascii '':00000001FF'' @ [10]
    | _ \<Rightarrow> False)"
  by (simp add: run_simps cong: then_do_cong and_then_cong)


end
